theory Spec2Isabelle
  imports Complex_Main
begin

section \<open>Meta transformers for panel data (sktime/transformers/panel/compose.py)\<close>

text \<open>
  The module composes transformers over panel data: a column transformer built on
  scikit-learn's, a column concatenator, and two row transformers that apply a
  single-series transformer to every instance of a panel. Exceptions are values of the
  type \<open>error\<close>; a method that mutates its object returns the object next to its result.
\<close>

subsection \<open>Exceptions\<close>

text \<open>
  \<open>ValueError\<close> and \<open>TypeError\<close> carry the message the module formats. \<open>MalformedInput\<close> is
  what the input validation raises and \<open>UnsupportedData\<close> what a conversion raises on
  series of unequal length; both come from helpers outside this module.
\<close>

datatype error =
    NotFittedError
  | ValueError string
  | TypeError string
  | IndexError
  | AttributeError string
  | MalformedInput
  | UnsupportedData

subsection \<open>Fitted state\<close>

text \<open>Every estimator of the module inherits the flag \<open>_is_fitted\<close> from the base estimator.\<close>

record base_estimator =
  is_fitted :: bool

text \<open>
  Modelled from the spec: \<open>check_is_fitted\<close>, a method of the base estimator, which is
  not part of this module. It fails with a not-fitted error unless the flag is set.
\<close>

definition check_is_fitted :: "'a base_estimator_scheme \<Rightarrow> error + unit" where
  "check_is_fitted self = (if is_fitted self then Inr () else Inl NotFittedError)"

subsection \<open>Arrays and data frames\<close>

text \<open>
  Cell values are floating point numbers in the program; the module only moves them
  around, so they are kept as reals. A two-dimensional container (a 2-D numpy array or
  a pandas DataFrame) carries its shape and its rows; a 3-D numpy array carries its
  shape \<open>(N, D, T)\<close> and, per instance and variable, the series of length \<open>T\<close>. Shapes
  are stored because an array without rows still has a column count.
\<close>

type_synonym val = real

record 'a array2d =
  shape2 :: "nat \<times> nat"
  items2 :: "'a list list"

record array3d =
  shape3 :: "nat \<times> nat \<times> nat"
  items3 :: "val list list list"

text \<open>
  An array of any number of dimensions, as a per-entry transformer may return it: the
  shape and the elements in row-major order.
\<close>

record ndarray =
  nd_shape :: "nat list"
  nd_data :: "val list"

text \<open>A cell of a nested DataFrame holds a series; \<open>NaN\<close> is pandas' missing cell.\<close>

datatype cell = Series "val list" | NaN

definition wf_array2d :: "'a array2d \<Rightarrow> bool" where
  "wf_array2d A \<longleftrightarrow>
     length (items2 A) = fst (shape2 A) \<and>
     list_all (\<lambda>row. length row = snd (shape2 A)) (items2 A)"

definition wf_array3d :: "array3d \<Rightarrow> bool" where
  "wf_array3d A \<longleftrightarrow>
     length (items3 A) = fst (shape3 A) \<and>
     list_all (\<lambda>inst. length inst = fst (snd (shape3 A)) \<and>
                list_all (\<lambda>s. length s = snd (snd (shape3 A))) inst) (items3 A)"

subsection \<open>ColumnTransformer\<close>

text \<open>
  What a per-entry transformer hands back to the column transformer: a numpy array, a
  scipy sparse matrix, a DataFrame, a pandas Series, or some other Python object.
\<close>

datatype pyobj =
    NdArray ndarray
  | SparseMatrix "val array2d"
  | PdDataFrame "cell array2d"
  | PdSeries "cell list"
  | PyObject

datatype pytype = T_ndarray | T_spmatrix | T_DataFrame | T_Series | T_object

fun type_of :: "pyobj \<Rightarrow> pytype" where
  "type_of (NdArray _) = T_ndarray"
| "type_of (SparseMatrix _) = T_spmatrix"
| "type_of (PdDataFrame _) = T_DataFrame"
| "type_of (PdSeries _) = T_Series"
| "type_of PyObject = T_object"

text \<open>\<open>getattr(Xs, "ndim", 0)\<close>: an object without the attribute answers 0.\<close>

fun ndim :: "pyobj \<Rightarrow> nat" where
  "ndim (NdArray a) = length (nd_shape a)"
| "ndim (SparseMatrix _) = 2"
| "ndim (PdDataFrame _) = 2"
| "ndim (PdSeries _) = 1"
| "ndim PyObject = 0"

fun isinstance_Series :: "pyobj \<Rightarrow> bool" where
  "isinstance_Series (PdSeries _) = True"
| "isinstance_Series _ = False"

text \<open>
  The three stacking routines are library calls (scipy, pandas, numpy). Whether a call
  raises on a given list of entries is the library's business: a parameter of the
  model. When a call returns, the model records which routine was applied to which
  entries.
\<close>

datatype stacked =
    Sparse_hstack_tocsr "pyobj list"
  | Pd_concat_columns "pyobj list"
  | Np_hstack "pyobj list"

record stack_library =
  sparse_hstack_raises :: "pyobj list \<Rightarrow> error option"
  pd_concat_raises :: "pyobj list \<Rightarrow> error option"
  np_hstack_raises :: "pyobj list \<Rightarrow> error option"

definition sparse_hstack_tocsr :: "stack_library \<Rightarrow> pyobj list \<Rightarrow> error + stacked" where
  "sparse_hstack_tocsr lib Xs =
     (case sparse_hstack_raises lib Xs of
        Some e \<Rightarrow> Inl e
      | None \<Rightarrow> Inr (Sparse_hstack_tocsr Xs))"

definition pd_concat_columns :: "stack_library \<Rightarrow> pyobj list \<Rightarrow> error + stacked" where
  "pd_concat_columns lib Xs =
     (case pd_concat_raises lib Xs of
        Some e \<Rightarrow> Inl e
      | None \<Rightarrow> Inr (Pd_concat_columns Xs))"

definition np_hstack :: "stack_library \<Rightarrow> pyobj list \<Rightarrow> error + stacked" where
  "np_hstack lib Xs =
     (case np_hstack_raises lib Xs of
        Some e \<Rightarrow> Inl e
      | None \<Rightarrow> Inr (Np_hstack Xs))"

text \<open>
  The object: the attributes this module reads and writes, and \<open>base\<close> for everything
  the scikit-learn base class keeps (the transformer list, the fitted transformers).
  \<open>sparse_output_attr\<close> is the attribute \<open>sparse_output_\<close> (a name cannot end with an
  underscore here): absent until the base class sets it while fitting.
\<close>

record 'k column_transformer = base_estimator +
  preserve_dataframe :: bool
  sparse_output_attr :: "bool option"
  base :: 'k

definition ColumnTransformer_init :: "'k \<Rightarrow> bool \<Rightarrow> 'k column_transformer" where
  "ColumnTransformer_init super_init preserve =
     \<lparr>is_fitted = False, preserve_dataframe = preserve, sparse_output_attr = None,
      base = super_init\<rparr>"

definition ColumnTransformer_hstack ::
  "stack_library \<Rightarrow> 'k column_transformer \<Rightarrow> pyobj list \<Rightarrow> error + stacked" where
  "ColumnTransformer_hstack lib self Xs =
     (let types = set (map type_of Xs) in
      case sparse_output_attr self of
        None \<Rightarrow> Inl (AttributeError ''sparse_output_'')
      | Some sparse \<Rightarrow>
          if sparse then sparse_hstack_tocsr lib Xs
          else if preserve_dataframe self \<and> (T_Series \<in> types \<or> T_DataFrame \<in> types)
            then pd_concat_columns lib Xs
          else np_hstack lib Xs)"

text \<open>
  Modelled from the spec: the sparse-output condition, which the scikit-learn base
  class evaluates on the outputs while fitting and stores in \<open>sparse_output_\<close>. Some
  output is sparse, and the overall density is below the sparse threshold: the stored
  elements of the sparse outputs and all elements of the other outputs, over the
  number of all elements.
\<close>

fun issparse :: "pyobj \<Rightarrow> bool" where
  "issparse (SparseMatrix _) = True"
| "issparse _ = False"

fun n_elements :: "pyobj \<Rightarrow> nat" where
  "n_elements (NdArray a) = prod_list (nd_shape a)"
| "n_elements (SparseMatrix A) = fst (shape2 A) * snd (shape2 A)"
| "n_elements (PdDataFrame A) = fst (shape2 A) * snd (shape2 A)"
| "n_elements (PdSeries s) = length s"
| "n_elements PyObject = 0"

fun n_stored :: "pyobj \<Rightarrow> nat" where
  "n_stored (SparseMatrix A) = length (filter (\<lambda>x. x \<noteq> 0) (concat (items2 A)))"
| "n_stored X = n_elements X"

definition overall_density :: "pyobj list \<Rightarrow> real" where
  "overall_density Xs =
     real (sum_list (map n_stored Xs)) / real (sum_list (map n_elements Xs))"

definition sparse_output_condition :: "real \<Rightarrow> pyobj list \<Rightarrow> bool" where
  "sparse_output_condition threshold Xs \<longleftrightarrow>
     list_ex issparse Xs \<and> 0 < sum_list (map n_elements Xs) \<and>
     overall_density Xs < threshold"

definition output_2d_message :: "string \<Rightarrow> string" where
  "output_2d_message name =
     ''The output of the '' @ [CHR 0x27] @ name @ [CHR 0x27] @
     '' transformer should be 2D (scipy matrix, array, or pandas DataFrame).''"

text \<open>The loop of \<open>_validate_output\<close> over \<open>zip(result, names)\<close>.\<close>

fun validate_loop :: "(pyobj \<times> string) list \<Rightarrow> error + unit" where
  "validate_loop [] = Inr ()"
| "validate_loop ((Xs, name) # rest) =
     (if \<not> (ndim Xs = 2 \<or> isinstance_Series Xs)
      then Inl (ValueError (output_2d_message name))
      else validate_loop rest)"

text \<open>
  \<open>names\<close> is what the base class's \<open>_iter(fitted=True, replace_strings=True)\<close> yields:
  the names of the fitted entries, in order.
\<close>

definition ColumnTransformer_validate_output :: "string list \<Rightarrow> pyobj list \<Rightarrow> error + unit" where
  "ColumnTransformer_validate_output names result = validate_loop (zip result names)"

definition output_ok :: "pyobj \<Rightarrow> bool" where
  "output_ok Xs \<longleftrightarrow> ndim Xs = 2 \<or> isinstance_Series Xs"

subsection \<open>Panels, their validation and their conversions\<close>

text \<open>
  What a caller may pass as \<open>X\<close>: a nested DataFrame (series in cells), a 3-D numpy
  array, or a 2-D numpy array, which is tabular data and not a panel.
\<close>

datatype panel =
    DataFrame "cell array2d"
  | Numpy3D array3d
  | Numpy2D "val array2d"

fun n_instances :: "panel \<Rightarrow> nat" where
  "n_instances (DataFrame df) = fst (shape2 df)"
| "n_instances (Numpy3D a) = fst (shape3 a)"
| "n_instances (Numpy2D a) = fst (shape2 a)"

fun is_series :: "cell \<Rightarrow> bool" where
  "is_series (Series _) = True"
| "is_series NaN = False"

fun series_of :: "cell \<Rightarrow> val list" where
  "series_of (Series s) = s"
| "series_of NaN = []"

definition is_nested_dataframe :: "cell array2d \<Rightarrow> bool" where
  "is_nested_dataframe df \<longleftrightarrow> wf_array2d df \<and> list_all (list_all is_series) (items2 df)"

text \<open>All series of the table share one length: the length of the first cell.\<close>

definition series_length :: "cell array2d \<Rightarrow> nat" where
  "series_length df = (case concat (items2 df) of [] \<Rightarrow> 0 | c # _ \<Rightarrow> length (series_of c))"

definition equal_length :: "cell array2d \<Rightarrow> bool" where
  "equal_length df \<longleftrightarrow>
     list_all (list_all (\<lambda>c. length (series_of c) = series_length df)) (items2 df)"

text \<open>
  Modelled from the spec: the conversions of \<open>sktime.utils.data_processing\<close>, which are
  not part of this module. A 3-D array \<open>N \<times> D \<times> T\<close> and a nested table \<open>N \<times> D\<close> with
  series of one length \<open>T\<close> hold the same data; the tabular form has one row per
  instance with the \<open>D\<close> series of the instance one after the other (variable-major,
  then time); re-nesting a 2-D array gives a nested table with one column, whose cell
  in row \<open>i\<close> is row \<open>i\<close> of the array. Nested to tabular and nested to 3-D fail when
  the series are not all of one length.
\<close>

definition from_3d_numpy_to_nested :: "array3d \<Rightarrow> cell array2d" where
  "from_3d_numpy_to_nested a =
     \<lparr>shape2 = (fst (shape3 a), fst (snd (shape3 a))), items2 = map (map Series) (items3 a)\<rparr>"

definition from_nested_to_3d_numpy :: "cell array2d \<Rightarrow> error + array3d" where
  "from_nested_to_3d_numpy df =
     (if equal_length df
      then Inr \<lparr>shape3 = (fst (shape2 df), snd (shape2 df), series_length df),
                items3 = map (map series_of) (items2 df)\<rparr>
      else Inl UnsupportedData)"

definition from_nested_to_2d_array :: "cell array2d \<Rightarrow> error + val array2d" where
  "from_nested_to_2d_array df =
     (if equal_length df
      then Inr \<lparr>shape2 = (fst (shape2 df), snd (shape2 df) * series_length df),
                items2 = map (\<lambda>row. concat (map series_of row)) (items2 df)\<rparr>
      else Inl UnsupportedData)"

definition from_3d_numpy_to_2d_array :: "array3d \<Rightarrow> val array2d" where
  "from_3d_numpy_to_2d_array a =
     \<lparr>shape2 = (fst (shape3 a), fst (snd (shape3 a)) * snd (snd (shape3 a))),
      items2 = map concat (items3 a)\<rparr>"

definition from_2d_array_to_nested :: "val array2d \<Rightarrow> cell array2d" where
  "from_2d_array_to_nested A =
     \<lparr>shape2 = (fst (shape2 A), 1), items2 = map (\<lambda>row. [Series row]) (items2 A)\<rparr>"

text \<open>
  Modelled from the spec: \<open>check_X\<close> of \<open>sktime.utils.validation.panel\<close>, not part of
  this module. It raises on malformed input (anything but a nested DataFrame with a
  series in every cell or a 3-D array) and normalises a panel into the form asked for.
\<close>

datatype coerce = No_coerce | Coerce_to_numpy | Coerce_to_pandas

definition check_X :: "panel \<Rightarrow> coerce \<Rightarrow> error + panel" where
  "check_X X c =
     (case X of
        DataFrame df \<Rightarrow>
          if \<not> is_nested_dataframe df then Inl MalformedInput
          else if c = Coerce_to_numpy
            then (case from_nested_to_3d_numpy df of Inl e \<Rightarrow> Inl e | Inr a \<Rightarrow> Inr (Numpy3D a))
          else Inr (DataFrame df)
      | Numpy3D a \<Rightarrow>
          if \<not> wf_array3d a then Inl MalformedInput
          else if c = Coerce_to_pandas then Inr (DataFrame (from_3d_numpy_to_nested a))
          else Inr (Numpy3D a)
      | Numpy2D _ \<Rightarrow> Inl MalformedInput)"

subsection \<open>ColumnTransformer: fit, transform, fit\_transform\<close>

text \<open>
  The methods of the scikit-learn base class that the three wrappers call through
  \<open>super\<close>. They are library code: a parameter of the model. A method that may assign
  attributes takes the object and returns it.
\<close>

record 'k super_methods =
  super_fit ::
    "'k column_transformer \<Rightarrow> panel \<Rightarrow> val list option \<Rightarrow> (error + unit) \<times> 'k column_transformer"
  super_transform ::
    "'k column_transformer \<Rightarrow> panel \<Rightarrow> error + stacked"
  super_fit_transform ::
    "'k column_transformer \<Rightarrow> panel \<Rightarrow> val list option \<Rightarrow> (error + stacked) \<times> 'k column_transformer"

definition ColumnTransformer_fit ::
  "'k super_methods \<Rightarrow> 'k column_transformer \<Rightarrow> panel \<Rightarrow> val list option
     \<Rightarrow> (error + unit) \<times> 'k column_transformer" where
  "ColumnTransformer_fit super self X y =
     (case check_X X Coerce_to_pandas of
        Inl e \<Rightarrow> (Inl e, self)
      | Inr X' \<Rightarrow>
          (case super_fit super self X' y of
             (Inl e, self') \<Rightarrow> (Inl e, self')
           | (Inr _, self') \<Rightarrow> (Inr (), self'\<lparr>is_fitted := True\<rparr>)))"

definition ColumnTransformer_transform ::
  "'k super_methods \<Rightarrow> 'k column_transformer \<Rightarrow> panel \<Rightarrow> error + stacked" where
  "ColumnTransformer_transform super self X =
     (case check_is_fitted self of
        Inl e \<Rightarrow> Inl e
      | Inr _ \<Rightarrow>
          (case check_X X Coerce_to_pandas of
             Inl e \<Rightarrow> Inl e
           | Inr X' \<Rightarrow> super_transform super self X'))"

definition ColumnTransformer_fit_transform ::
  "'k super_methods \<Rightarrow> 'k column_transformer \<Rightarrow> panel \<Rightarrow> val list option
     \<Rightarrow> (error + stacked) \<times> 'k column_transformer" where
  "ColumnTransformer_fit_transform super self X y =
     (case super_fit_transform super self X y of
        (Inl e, self') \<Rightarrow> (Inl e, self')
      | (Inr Xt, self') \<Rightarrow> (Inr Xt, self'\<lparr>is_fitted := True\<rparr>))"

subsection \<open>ColumnConcatenator\<close>

text \<open>
  The concatenator has no attribute of its own beyond the fitted flag. After \<open>check_X\<close>
  the input is a nested DataFrame or a 3-D array; the branch for a 2-D array is never
  taken.
\<close>

definition ColumnConcatenator_transform ::
  "'a base_estimator_scheme \<Rightarrow> panel \<Rightarrow> error + cell array2d" where
  "ColumnConcatenator_transform self X =
     (case check_is_fitted self of
        Inl e \<Rightarrow> Inl e
      | Inr _ \<Rightarrow>
          (case check_X X No_coerce of
             Inl e \<Rightarrow> Inl e
           | Inr X' \<Rightarrow>
               (case (case X' of
                        DataFrame df \<Rightarrow> from_nested_to_2d_array df
                      | Numpy3D a \<Rightarrow> Inr (from_3d_numpy_to_2d_array a)
                      | Numpy2D a \<Rightarrow> Inl MalformedInput) of
                  Inl e \<Rightarrow> Inl e
                | Inr Xt \<Rightarrow> Inr (from_2d_array_to_nested Xt))))"

subsection \<open>Single-series transformers and their clones\<close>

text \<open>
  The template transformer of a row transformer is an object of some class outside
  this module. The model keeps what the module uses of it: whether it is an instance
  of \<open>_SeriesToSeriesTransformer\<close> and of \<open>_SeriesToPrimitivesTransformer\<close>, its
  \<open>fit_transform\<close> method, which reads and replaces the fitted state of the object, the
  state \<open>unfitted\<close> of a newly constructed object with the same parameters, and the
  current state. \<open>clone\<close> (scikit-learn) builds a new unfitted object with the same
  parameters.
\<close>

record 's estimator =
  is_SeriesToSeriesTransformer :: bool
  is_SeriesToPrimitivesTransformer :: bool
  fit_transform_method :: "'s \<Rightarrow> val array2d \<Rightarrow> (error + ndarray) \<times> 's"
  unfitted :: 's
  state :: 's

definition clone :: "'s estimator \<Rightarrow> 's estimator" where
  "clone t = t\<lparr>state := unfitted t\<rparr>"

definition fit_transform :: "'s estimator \<Rightarrow> val array2d \<Rightarrow> (error + ndarray) \<times> 's estimator" where
  "fit_transform t Xi =
     (case fit_transform_method t (state t) Xi of (r, s') \<Rightarrow> (r, t\<lparr>state := s'\<rparr>))"

datatype transformer_class = SeriesToPrimitivesTransformer | SeriesToSeriesTransformer

fun class_name :: "transformer_class \<Rightarrow> string" where
  "class_name SeriesToPrimitivesTransformer = ''_SeriesToPrimitivesTransformer''"
| "class_name SeriesToSeriesTransformer = ''_SeriesToSeriesTransformer''"

fun isinstance :: "'s estimator \<Rightarrow> transformer_class \<Rightarrow> bool" where
  "isinstance t SeriesToPrimitivesTransformer = is_SeriesToPrimitivesTransformer t"
| "isinstance t SeriesToSeriesTransformer = is_SeriesToSeriesTransformer t"

subsection \<open>numpy and pandas operations of the row transformers\<close>

text \<open>Indexing a Python list or the first axis of an array; out of range raises.\<close>

definition getitem :: "'a list \<Rightarrow> nat \<Rightarrow> error + 'a" where
  "getitem xs i = (if i < length xs then Inr (xs ! i) else Inl IndexError)"

definition getitem3 :: "array3d \<Rightarrow> nat \<Rightarrow> error + val array2d" where
  "getitem3 X i =
     (if i < fst (shape3 X) \<and> i < length (items3 X)
      then Inr \<lparr>shape2 = snd (shape3 X), items2 = items3 X ! i\<rparr>
      else Inl IndexError)"

text \<open>\<open>A.T\<close> of a two-dimensional container.\<close>

definition transpose2 :: "'a array2d \<Rightarrow> 'a array2d" where
  "transpose2 A =
     \<lparr>shape2 = (snd (shape2 A), fst (shape2 A)),
      items2 = map (\<lambda>j. map (\<lambda>row. row ! j) (items2 A)) [0..<snd (shape2 A)]\<rparr>"

definition np_zeros :: "nat \<times> nat \<Rightarrow> val array2d" where
  "np_zeros sh = \<lparr>shape2 = sh, items2 = replicate (fst sh) (replicate (snd sh) 0)\<rparr>"

text \<open>
  Assigning a value to a row of length \<open>d\<close> (\<open>Xt[i] = v\<close>): numpy converts the value to
  an array, drops leading dimensions of size one and broadcasts what is left. A scalar
  or a single element fills the row, \<open>d\<close> elements are copied, and every other shape
  raises. A value whose elements do not fit its shape is not an array.
\<close>

definition broadcast_to_row :: "nat \<Rightarrow> ndarray \<Rightarrow> error + val list" where
  "broadcast_to_row d v =
     (let s = dropWhile (\<lambda>k. k = 1) (nd_shape v) in
      if length (nd_data v) \<noteq> prod_list (nd_shape v)
        then Inl (ValueError ''setting an array element with a sequence.'')
      else if s = [] then Inr (replicate d (hd (nd_data v)))
      else if s = [d] then Inr (nd_data v)
      else Inl (ValueError ''could not broadcast input array''))"

definition setitem_row :: "val array2d \<Rightarrow> nat \<Rightarrow> ndarray \<Rightarrow> error + val array2d" where
  "setitem_row Xt i v =
     (if i < fst (shape2 Xt)
      then (case broadcast_to_row (snd (shape2 Xt)) v of
              Inl e \<Rightarrow> Inl e
            | Inr row \<Rightarrow> Inr (Xt\<lparr>items2 := (items2 Xt)[i := row]\<rparr>))
      else Inl IndexError)"

text \<open>
  A two-dimensional output as rows; an output of another dimension is not what
  \<open>from_2d_array_to_nested\<close> converts.
\<close>

definition ndarray_2d :: "ndarray \<Rightarrow> error + val array2d" where
  "ndarray_2d xt =
     (case nd_shape xt of
        [r, c] \<Rightarrow>
          if length (nd_data xt) = r * c
          then Inr \<lparr>shape2 = (r, c),
                    items2 = map (\<lambda>i. take c (drop (i * c) (nd_data xt))) [0..<r]\<rparr>
          else Inl MalformedInput
      | _ \<Rightarrow> Inl MalformedInput)"

text \<open>
  \<open>pd.concat(xts, axis=0)\<close>: the frames one below the other; the columns are the union
  of the frames' columns, and a frame with fewer columns gets missing cells. An empty
  list raises.
\<close>

definition pd_concat_rows :: "cell array2d list \<Rightarrow> error + cell array2d" where
  "pd_concat_rows xts =
     (if xts = [] then Inl (ValueError ''No objects to concatenate'')
      else
        (let w = fold max (map (\<lambda>b. snd (shape2 b)) xts) 0 in
         Inr \<lparr>shape2 = (sum_list (map (\<lambda>b. fst (shape2 b)) xts), w),
              items2 = concat (map (\<lambda>b. map (\<lambda>row. row @ replicate (w - length row) NaN)
                                     (items2 b)) xts)\<rparr>))"

subsection \<open>Row transformers\<close>

text \<open>
  \<open>valid_transformer_type\<close> is the class attribute \<open>_valid_transformer_type\<close>, which also
  tells the two subclasses apart. \<open>transformer_attr\<close> is the attribute \<open>transformer_\<close>,
  absent until \<open>_prepare\<close> assigns it.
\<close>

record 's row_transformer = base_estimator +
  valid_transformer_type :: transformer_class
  transformer :: "'s estimator"
  check_transformer :: bool
  transformer_attr :: "'s estimator list option"

text \<open>
  \<open>__init__\<close> stores its arguments and calls the base class's \<open>__init__\<close>, after which
  the object is not fitted (the base class is outside this module; the spec has the
  row transformers require a fit before \<open>transform\<close>). It has no failing branch.
\<close>

definition RowTransformer_init ::
  "transformer_class \<Rightarrow> 's estimator \<Rightarrow> bool \<Rightarrow> error + 's row_transformer" where
  "RowTransformer_init cls t chk =
     Inr \<lparr>is_fitted = False, valid_transformer_type = cls, transformer = t,
          check_transformer = chk, transformer_attr = None\<rparr>"

definition SeriesToPrimitivesRowTransformer ::
  "'s estimator \<Rightarrow> bool \<Rightarrow> error + 's row_transformer" where
  "SeriesToPrimitivesRowTransformer t chk = RowTransformer_init SeriesToPrimitivesTransformer t chk"

definition SeriesToSeriesRowTransformer ::
  "'s estimator \<Rightarrow> bool \<Rightarrow> error + 's row_transformer" where
  "SeriesToSeriesRowTransformer t chk = RowTransformer_init SeriesToSeriesTransformer t chk"

text \<open>
  \<open>_check_transformer\<close>: its assertion that the class defines \<open>_valid_transformer_type\<close>
  holds for both subclasses.
\<close>

definition RowTransformer_check_transformer :: "'s row_transformer \<Rightarrow> error + unit" where
  "RowTransformer_check_transformer self =
     (if check_transformer self \<and> \<not> isinstance (transformer self) (valid_transformer_type self)
      then Inl (TypeError (''transformer must be a '' @ class_name (valid_transformer_type self)))
      else Inr ())"

definition RowTransformer_prepare ::
  "'s row_transformer \<Rightarrow> panel \<Rightarrow> (error + array3d) \<times> 's row_transformer" where
  "RowTransformer_prepare self X =
     (case check_is_fitted self of
        Inl e \<Rightarrow> (Inl e, self)
      | Inr _ \<Rightarrow>
          (case RowTransformer_check_transformer self of
             Inl e \<Rightarrow> (Inl e, self)
           | Inr _ \<Rightarrow>
               (case check_X X Coerce_to_numpy of
                  Inr (Numpy3D A) \<Rightarrow>
                    (Inr A, self\<lparr>transformer_attr :=
                       Some (map (\<lambda>_. clone (transformer self)) [0..<fst (shape3 A)])\<rparr>)
                | Inr _ \<Rightarrow> (Inl MalformedInput, self)
                | Inl e \<Rightarrow> (Inl e, self))))"

text \<open>
  The loop of \<open>SeriesToPrimitivesRowTransformer.transform\<close> over \<open>range(X.shape[0])\<close>:
  \<open>Xt[i] = self.transformer_[i].fit_transform(X[i].T)\<close>. The list of clones is threaded
  through, since fitting clone \<open>i\<close> changes element \<open>i\<close> of \<open>self.transformer_\<close>.
\<close>

fun primitives_loop ::
  "nat list \<Rightarrow> array3d \<Rightarrow> val array2d \<Rightarrow> 's estimator list
     \<Rightarrow> (error + val array2d) \<times> 's estimator list" where
  "primitives_loop [] X Xt ts = (Inr Xt, ts)"
| "primitives_loop (i # rest) X Xt ts =
     (case getitem ts i of
        Inl e \<Rightarrow> (Inl e, ts)
      | Inr t \<Rightarrow>
          (case getitem3 X i of
             Inl e \<Rightarrow> (Inl e, ts)
           | Inr Xi \<Rightarrow>
               (case fit_transform t (transpose2 Xi) of
                  (Inl e, t') \<Rightarrow> (Inl e, ts[i := t'])
                | (Inr v, t') \<Rightarrow>
                    (case setitem_row Xt i v of
                       Inl e \<Rightarrow> (Inl e, ts[i := t'])
                     | Inr Xt' \<Rightarrow> primitives_loop rest X Xt' (ts[i := t'])))))"

text \<open>The result \<open>pd.DataFrame(Xt)\<close> is the table with the shape and the values of \<open>Xt\<close>.\<close>

definition SeriesToPrimitivesRowTransformer_transform ::
  "'s row_transformer \<Rightarrow> panel \<Rightarrow> (error + val array2d) \<times> 's row_transformer" where
  "SeriesToPrimitivesRowTransformer_transform self X =
     (case RowTransformer_prepare self X of
        (Inl e, self') \<Rightarrow> (Inl e, self')
      | (Inr A, self') \<Rightarrow>
          (case transformer_attr self' of
             None \<Rightarrow> (Inl (AttributeError ''transformer_''), self')
           | Some ts \<Rightarrow>
               (case primitives_loop [0..<fst (shape3 A)] A
                       (np_zeros (fst (shape3 A), fst (snd (shape3 A)))) ts of
                  (r, ts') \<Rightarrow> (r, self'\<lparr>transformer_attr := Some ts'\<rparr>))))"

text \<open>
  The loop of \<open>SeriesToSeriesRowTransformer.transform\<close>:
  \<open>xt = self.transformer_[i].fit_transform(X[i].T)\<close>, then
  \<open>xts.append(from_2d_array_to_nested(xt.T).T)\<close>.
\<close>

fun series_loop ::
  "nat list \<Rightarrow> array3d \<Rightarrow> cell array2d list \<Rightarrow> 's estimator list
     \<Rightarrow> (error + cell array2d list) \<times> 's estimator list" where
  "series_loop [] X xts ts = (Inr xts, ts)"
| "series_loop (i # rest) X xts ts =
     (case getitem ts i of
        Inl e \<Rightarrow> (Inl e, ts)
      | Inr t \<Rightarrow>
          (case getitem3 X i of
             Inl e \<Rightarrow> (Inl e, ts)
           | Inr Xi \<Rightarrow>
               (case fit_transform t (transpose2 Xi) of
                  (Inl e, t') \<Rightarrow> (Inl e, ts[i := t'])
                | (Inr xt, t') \<Rightarrow>
                    (case ndarray_2d xt of
                       Inl e \<Rightarrow> (Inl e, ts[i := t'])
                     | Inr xt2 \<Rightarrow>
                         series_loop rest X
                           (xts @ [transpose2 (from_2d_array_to_nested (transpose2 xt2))])
                           (ts[i := t'])))))"

definition SeriesToSeriesRowTransformer_transform ::
  "'s row_transformer \<Rightarrow> panel \<Rightarrow> (error + cell array2d) \<times> 's row_transformer" where
  "SeriesToSeriesRowTransformer_transform self X =
     (case RowTransformer_prepare self X of
        (Inl e, self') \<Rightarrow> (Inl e, self')
      | (Inr A, self') \<Rightarrow>
          (case transformer_attr self' of
             None \<Rightarrow> (Inl (AttributeError ''transformer_''), self')
           | Some ts \<Rightarrow>
               (case series_loop [0..<fst (shape3 A)] A [] ts of
                  (Inl e, ts') \<Rightarrow> (Inl e, self'\<lparr>transformer_attr := Some ts'\<rparr>)
                | (Inr xts, ts') \<Rightarrow> (pd_concat_rows xts, self'\<lparr>transformer_attr := Some ts'\<rparr>))))"

subsection \<open>The factory\<close>

definition valid_transformer_types :: "string list" where
  "valid_transformer_types = [''series-to-series'', ''series-to-primitives'']"

definition invalid_transformer_type_message :: string where
  "invalid_transformer_type_message =
     ''Invalid '' @ [CHR 0x60] @ ''transformer_type'' @ [CHR 0x60] @
     ''. Please choose one of ('' @ [CHR 0x27] @ ''series-to-series'' @ [CHR 0x27] @ '', '' @
     [CHR 0x27] @ ''series-to-primitives'' @ [CHR 0x27] @ '').''"

definition type_not_understood_message :: string where
  "type_not_understood_message =
     ''transformer type not understood. Please specify '' @ [CHR 0x60] @ ''transformer_type'' @
     [CHR 0x60] @ ''.''"

text \<open>
  \<open>transformer_type\<close> is \<open>None\<close> unless the caller overrides it. The keyword arguments
  go to the constructor; \<open>check_transformer\<close> is the one it accepts.
\<close>

definition make_row_transformer ::
  "'s estimator \<Rightarrow> string option \<Rightarrow> bool \<Rightarrow> error + 's row_transformer" where
  "make_row_transformer t transformer_type chk =
     (case (case transformer_type of
              Some ty \<Rightarrow>
                if ty \<notin> set valid_transformer_types
                then Inl (ValueError invalid_transformer_type_message)
                else Inr ty
            | None \<Rightarrow>
                if isinstance t SeriesToSeriesTransformer then Inr ''series-to-series''
                else if isinstance t SeriesToPrimitivesTransformer then Inr ''series-to-primitives''
                else Inl (TypeError type_not_understood_message)) of
        Inl e \<Rightarrow> Inl e
      | Inr ty \<Rightarrow>
          if ty = ''series-to-series'' then SeriesToSeriesRowTransformer t chk
          else SeriesToPrimitivesRowTransformer t chk)"

subsection \<open>Valid panels and the instances of a panel\<close>

text \<open>
  A valid panel: a nested DataFrame with a series of one common length in every cell,
  or a 3-D array.
\<close>

definition valid_panel :: "panel \<Rightarrow> bool" where
  "valid_panel X \<longleftrightarrow>
     (case X of
        DataFrame df \<Rightarrow> is_nested_dataframe df \<and> equal_length df
      | Numpy3D a \<Rightarrow> wf_array3d a
      | Numpy2D _ \<Rightarrow> False)"

text \<open>Instance \<open>i\<close> of a 3-D array as the single-series transformer sees it: \<open>X[i].T\<close>.\<close>

definition instance_T :: "array3d \<Rightarrow> nat \<Rightarrow> val array2d" where
  "instance_T A i = transpose2 \<lparr>shape2 = snd (shape3 A), items2 = items3 A ! i\<rparr>"

subsection \<open>Example objects\<close>

text \<open>
  A series-to-primitives transformer that returns the first observation of every
  variable and keeps it as its fitted state, and a series-to-series transformer that
  returns its input and keeps the values it saw.
\<close>

definition first_observation :: "val list option estimator" where
  "first_observation =
     \<lparr>is_SeriesToSeriesTransformer = False, is_SeriesToPrimitivesTransformer = True,
      fit_transform_method =
        (\<lambda>s Xi. case items2 Xi of
                  [] \<Rightarrow> (Inl (ValueError ''no time points''), s)
                | row # _ \<Rightarrow> (Inr \<lparr>nd_shape = [length row], nd_data = row\<rparr>, Some row)),
      unfitted = None, state = None\<rparr>"

definition identity_series :: "val list option estimator" where
  "identity_series =
     \<lparr>is_SeriesToSeriesTransformer = True, is_SeriesToPrimitivesTransformer = False,
      fit_transform_method =
        (\<lambda>s Xi. (Inr \<lparr>nd_shape = [fst (shape2 Xi), snd (shape2 Xi)],
                        nd_data = concat (items2 Xi)\<rparr>, Some (concat (items2 Xi)))),
      unfitted = None, state = None\<rparr>"

text \<open>
  A stacking library for the examples: the sparse routine raises on an entry that is
  neither an array nor a sparse matrix (a DataFrame of nested series cannot be
  converted), \<open>pd.concat\<close> raises on an entry that is neither a DataFrame nor a Series.
\<close>

definition example_library :: stack_library where
  "example_library =
     \<lparr>sparse_hstack_raises =
        (\<lambda>Xs. if list_all (\<lambda>X. type_of X = T_ndarray \<or> type_of X = T_spmatrix) Xs then None
              else Some (ValueError ''sparse.hstack: an entry is not a numeric matrix'')),
      pd_concat_raises =
        (\<lambda>Xs. if list_all (\<lambda>X. type_of X = T_DataFrame \<or> type_of X = T_Series) Xs then None
              else Some (TypeError ''pd.concat: an entry is not a Series or DataFrame'')),
      np_hstack_raises = (\<lambda>Xs. None)\<rparr>"

text \<open>
  A base class configured with one entry, named \<open>all\<close>, that passes every column
  through. Its output for the entry is the input itself; it validates the outputs and
  stacks them with the methods of this module, as the scikit-learn class does through
  \<open>self\<close>, and it sets \<open>sparse_output_\<close> while fitting (no output is sparse).
\<close>

fun passthrough :: "panel \<Rightarrow> pyobj" where
  "passthrough (DataFrame df) = PdDataFrame df"
| "passthrough (Numpy3D a) =
     NdArray \<lparr>nd_shape = [fst (shape3 a), fst (snd (shape3 a)), snd (snd (shape3 a))],
              nd_data = concat (concat (items3 a))\<rparr>"
| "passthrough (Numpy2D a) =
     NdArray \<lparr>nd_shape = [fst (shape2 a), snd (shape2 a)], nd_data = concat (items2 a)\<rparr>"

definition passthrough_fit_transform ::
  "unit column_transformer \<Rightarrow> panel \<Rightarrow> val list option
     \<Rightarrow> (error + stacked) \<times> unit column_transformer" where
  "passthrough_fit_transform self X y =
     (let self' = self\<lparr>sparse_output_attr := Some False\<rparr> in
      case ColumnTransformer_validate_output [''all''] [passthrough X] of
        Inl e \<Rightarrow> (Inl e, self')
      | Inr _ \<Rightarrow> (ColumnTransformer_hstack example_library self' [passthrough X], self'))"

definition passthrough_super :: "unit super_methods" where
  "passthrough_super =
     \<lparr>super_fit =
        (\<lambda>self X y. case passthrough_fit_transform self X y of
                      (Inl e, self') \<Rightarrow> (Inl e, self')
                    | (Inr _, self') \<Rightarrow> (Inr (), self')),
      super_transform =
        (\<lambda>self X. case ColumnTransformer_validate_output [''all''] [passthrough X] of
                    Inl e \<Rightarrow> Inl e
                  | Inr _ \<Rightarrow> ColumnTransformer_hstack example_library self [passthrough X]),
      super_fit_transform = passthrough_fit_transform\<rparr>"

text \<open>
  A panel of two instances with two variables and two time points, and a fitted row
  transformer of each kind.
\<close>

definition example_panel :: panel where
  "example_panel = Numpy3D \<lparr>shape3 = (2, 2, 2), items3 = [[[1, 2], [3, 4]], [[5, 6], [7, 8]]]\<rparr>"

definition example_primitives :: "val list option row_transformer" where
  "example_primitives =
     \<lparr>is_fitted = True, valid_transformer_type = SeriesToPrimitivesTransformer,
      transformer = first_observation, check_transformer = True, transformer_attr = None\<rparr>"

definition example_series :: "val list option row_transformer" where
  "example_series =
     \<lparr>is_fitted = True, valid_transformer_type = SeriesToSeriesTransformer,
      transformer = identity_series, check_transformer = True, transformer_attr = None\<rparr>"

text \<open>
  A series-to-primitives transformer that refuses negative observations, and a panel
  of three instances whose second instance has one.
\<close>

definition nonnegative_first_observation :: "val list option estimator" where
  "nonnegative_first_observation =
     \<lparr>is_SeriesToSeriesTransformer = False, is_SeriesToPrimitivesTransformer = True,
      fit_transform_method =
        (\<lambda>s Xi. case items2 Xi of
                  [] \<Rightarrow> (Inl (ValueError ''no time points''), s)
                | row # _ \<Rightarrow>
                    if list_all (\<lambda>x. 0 \<le> x) row
                    then (Inr \<lparr>nd_shape = [length row], nd_data = row\<rparr>, Some row)
                    else (Inl (ValueError ''negative observation''), s)),
      unfitted = None, state = None\<rparr>"

definition example_panel_negative :: panel where
  "example_panel_negative =
     Numpy3D \<lparr>shape3 = (3, 1, 2), items3 = [[[1, 2]], [[- 1, 2]], [[3, 4]]]\<rparr>"

definition example_nonnegative :: "val list option row_transformer" where
  "example_nonnegative =
     \<lparr>is_fitted = True, valid_transformer_type = SeriesToPrimitivesTransformer,
      transformer = nonnegative_first_observation, check_transformer = True,
      transformer_attr = None\<rparr>"

text \<open>
  Two outputs of one row: a sparse matrix with one stored element out of ten, and a
  DataFrame with one cell. Their overall density is 2 / 11.
\<close>

definition example_sparse_entry :: pyobj where
  "example_sparse_entry =
     SparseMatrix \<lparr>shape2 = (1, 10), items2 = [[1, 0, 0, 0, 0, 0, 0, 0, 0, 0]]\<rparr>"

definition example_frame_entry :: pyobj where
  "example_frame_entry = PdDataFrame \<lparr>shape2 = (1, 1), items2 = [[Series [1]]]\<rparr>"

definition example_array_entry :: pyobj where
  "example_array_entry = NdArray \<lparr>nd_shape = [1, 1], nd_data = [1]\<rparr>"

section \<open>Properties\<close>

subsection \<open>Output validation\<close>

lemma validate_loop_zip_Inl:
  "length result \<le> length names \<Longrightarrow> validate_loop (zip result names) = Inl e \<Longrightarrow>
   \<exists>i<length result. \<not> output_ok (result ! i) \<and> (\<forall>j<i. output_ok (result ! j)) \<and>
      e = ValueError (output_2d_message (names ! i))"
proof (induction result arbitrary: names)
  case Nil
  then show ?case by simp
next
  case (Cons Xs rest)
  then obtain name names' where names: "names = name # names'"
    by (cases names) auto
  show ?case
  proof (cases "output_ok Xs")
    case False
    with Cons.prems names have "e = ValueError (output_2d_message name)"
      by (simp add: output_ok_def)
    with False names show ?thesis
      by (intro exI[of _ 0]) simp
  next
    case True
    with Cons.prems names have "validate_loop (zip rest names') = Inl e" and "length rest \<le> length names'"
      by (auto simp: output_ok_def split: if_splits)
    from Cons.IH[OF this(2) this(1)] obtain i where i: "i < length rest" "\<not> output_ok (rest ! i)"
      "\<forall>j<i. output_ok (rest ! j)" "e = ValueError (output_2d_message (names' ! i))"
      by blast
    have "\<forall>j<Suc i. output_ok ((Xs # rest) ! j)"
      using True i(3) by (auto simp: less_Suc_eq_0_disj)
    with i names show ?thesis
      by (intro exI[of _ "Suc i"]) simp
  qed
qed

lemma validate_loop_zip_Inr:
  "length result \<le> length names \<Longrightarrow>
   validate_loop (zip result names) = Inr () \<longleftrightarrow> (\<forall>Xs\<in>set result. output_ok Xs)"
proof (induction result arbitrary: names)
  case Nil
  then show ?case by simp
next
  case (Cons Xs rest)
  then obtain name names' where "names = name # names'"
    by (cases names) auto
  with Cons show ?case
    by (auto simp: output_ok_def)
qed

text \<open>
  C5. \<open>_validate_output\<close> raises the shape error exactly when some per-entry output is
  neither two-dimensional nor a pandas Series, and the error names the first such
  entry; when every output is two-dimensional or a Series it returns without error.
  The outputs are per entry: the base class produces one output per name that \<open>_iter\<close>
  yields, so the list of names is at least as long as the list of outputs.
\<close>

theorem validate_output_raises_iff_not_2d:
  "length result \<le> length names \<Longrightarrow>
   ((\<exists>e. ColumnTransformer_validate_output names result = Inl e) \<longleftrightarrow>
      (\<exists>Xs\<in>set result. \<not> output_ok Xs)) \<and>
   ((\<forall>Xs\<in>set result. output_ok Xs) \<longrightarrow>
      ColumnTransformer_validate_output names result = Inr ()) \<and>
   (\<forall>e. ColumnTransformer_validate_output names result = Inl e \<longrightarrow>
      (\<exists>i<length result. \<not> output_ok (result ! i) \<and> (\<forall>j<i. output_ok (result ! j)) \<and>
         e = ValueError (output_2d_message (names ! i))))"
proof (intro conjI allI impI)
  assume len: "length result \<le> length names"
  show "(\<exists>e. ColumnTransformer_validate_output names result = Inl e) \<longleftrightarrow>
      (\<exists>Xs\<in>set result. \<not> output_ok Xs)"
  proof (cases "validate_loop (zip result names)")
    case (Inl e)
    with validate_loop_zip_Inr[OF len] show ?thesis
      by (auto simp: ColumnTransformer_validate_output_def)
  next
    case (Inr u)
    with validate_loop_zip_Inr[OF len] show ?thesis
      by (auto simp: ColumnTransformer_validate_output_def)
  qed
next
  assume "length result \<le> length names" "\<forall>Xs\<in>set result. output_ok Xs"
  then show "ColumnTransformer_validate_output names result = Inr ()"
    by (simp add: ColumnTransformer_validate_output_def validate_loop_zip_Inr)
next
  fix e
  assume "length result \<le> length names" "ColumnTransformer_validate_output names result = Inl e"
  then show "\<exists>i<length result. \<not> output_ok (result ! i) \<and> (\<forall>j<i. output_ok (result ! j)) \<and>
         e = ValueError (output_2d_message (names ! i))"
    by (simp add: ColumnTransformer_validate_output_def validate_loop_zip_Inl)
qed

theorem validate_output_witness:
  "length [PdSeries [NaN], NdArray \<lparr>nd_shape = [2], nd_data = [1, 2]\<rparr>] \<le> length [''a'', ''b''] \<and>
   \<not> output_ok (NdArray \<lparr>nd_shape = [2], nd_data = [1, 2]\<rparr>) \<and>
   ColumnTransformer_validate_output [''a'', ''b'']
     [PdSeries [NaN], NdArray \<lparr>nd_shape = [2], nd_data = [1, 2]\<rparr>]
   = Inl (ValueError (output_2d_message ''b'')) \<and>
   length [PdSeries [NaN], NdArray \<lparr>nd_shape = [1, 2], nd_data = [1, 2]\<rparr>] \<le> length [''a'', ''b''] \<and>
   output_ok (PdSeries [NaN]) \<and> output_ok (NdArray \<lparr>nd_shape = [1, 2], nd_data = [1, 2]\<rparr>) \<and>
   ColumnTransformer_validate_output [''a'', ''b'']
     [PdSeries [NaN], NdArray \<lparr>nd_shape = [1, 2], nd_data = [1, 2]\<rparr>]
   = Inr ()"
  using validate_output_raises_iff_not_2d
      [of "[PdSeries [NaN], NdArray \<lparr>nd_shape = [2], nd_data = [1, 2]\<rparr>]" "[''a'', ''b'']"]
    validate_output_raises_iff_not_2d
      [of "[PdSeries [NaN], NdArray \<lparr>nd_shape = [1, 2], nd_data = [1, 2]\<rparr>]" "[''a'', ''b'']"]
  by (simp add: ColumnTransformer_validate_output_def output_ok_def)

subsection \<open>Stacking\<close>

text \<open>
  C3, as the code has it. In \<open>_hstack\<close> the sparse-output condition is the flag
  \<open>sparse_output_\<close> that the base class stored while fitting; it is not evaluated again
  on the entries that are combined. Whenever the stored flag is set, \<open>_hstack\<close> hands
  all entries to \<open>sparse.hstack(Xs).tocsr()\<close> and returns its outcome, a single sparse
  matrix when the library accepts the entries and the library's error otherwise, before
  \<open>preserve_dataframe\<close> and the types of the entries are looked at, a DataFrame among the
  entries included. That is the case where the flag was stored from these same entries
  and they meet the condition. Whenever the stored flag is clear, the entries are not
  stacked as a sparse matrix, whatever their density.
\<close>

theorem hstack_sparse_precedes_dataframe:
  "(sparse_output_attr self = Some True \<longrightarrow>
      ColumnTransformer_hstack lib self Xs = sparse_hstack_tocsr lib Xs) \<and>
   (sparse_output_attr self = Some True \<and> sparse_hstack_raises lib Xs = None \<longrightarrow>
      ColumnTransformer_hstack lib self Xs = Inr (Sparse_hstack_tocsr Xs)) \<and>
   (sparse_output_condition threshold Xs \<longrightarrow>
      ColumnTransformer_hstack lib
        (self\<lparr>sparse_output_attr := Some (sparse_output_condition threshold Xs)\<rparr>) Xs =
      sparse_hstack_tocsr lib Xs) \<and>
   (sparse_output_attr self = Some False \<longrightarrow>
      ColumnTransformer_hstack lib self Xs =
        (if preserve_dataframe self \<and>
            (T_Series \<in> set (map type_of Xs) \<or> T_DataFrame \<in> set (map type_of Xs))
         then pd_concat_columns lib Xs else np_hstack lib Xs) \<and>
      ColumnTransformer_hstack lib self Xs \<noteq> Inr (Sparse_hstack_tocsr Ys))"
  by (auto simp: ColumnTransformer_hstack_def Let_def sparse_hstack_tocsr_def
      pd_concat_columns_def np_hstack_def split: option.splits)

theorem hstack_sparse_precedes_dataframe_witness:
  "preserve_dataframe \<lparr>is_fitted = True, preserve_dataframe = True,
     sparse_output_attr = Some True, base = ()\<rparr> \<and>
   T_DataFrame \<in> set (map type_of [example_sparse_entry, example_frame_entry]) \<and>
   ColumnTransformer_hstack example_library
     \<lparr>is_fitted = True, preserve_dataframe = True, sparse_output_attr = Some True, base = ()\<rparr>
     [example_sparse_entry, example_frame_entry] =
     sparse_hstack_tocsr example_library [example_sparse_entry, example_frame_entry] \<and>
   sparse_hstack_raises example_library [example_sparse_entry, example_array_entry] = None \<and>
   ColumnTransformer_hstack example_library
     \<lparr>is_fitted = True, preserve_dataframe = True, sparse_output_attr = Some True, base = ()\<rparr>
     [example_sparse_entry, example_array_entry] =
     Inr (Sparse_hstack_tocsr [example_sparse_entry, example_array_entry]) \<and>
   sparse_output_condition (3 / 10) [example_sparse_entry, example_frame_entry] \<and>
   ColumnTransformer_hstack example_library
     (\<lparr>is_fitted = True, preserve_dataframe = True, sparse_output_attr = None, base = ()\<rparr>
        \<lparr>sparse_output_attr :=
           Some (sparse_output_condition (3 / 10) [example_sparse_entry, example_frame_entry])\<rparr>)
     [example_sparse_entry, example_frame_entry] =
     sparse_hstack_tocsr example_library [example_sparse_entry, example_frame_entry] \<and>
   ColumnTransformer_hstack example_library
     \<lparr>is_fitted = True, preserve_dataframe = True, sparse_output_attr = Some False, base = ()\<rparr>
     [example_frame_entry] = Inr (Pd_concat_columns [example_frame_entry])"
proof -
  let ?sparse = "\<lparr>is_fitted = True, preserve_dataframe = True, sparse_output_attr = Some True,
      base = ()\<rparr>"
  let ?dense = "\<lparr>is_fitted = True, preserve_dataframe = True, sparse_output_attr = Some False,
      base = ()\<rparr>"
  let ?new = "\<lparr>is_fitted = True, preserve_dataframe = True, sparse_output_attr = None,
      base = ()\<rparr>"
  have h: "sparse_output_attr ?sparse = Some True" by simp
  have l: "sparse_hstack_raises example_library [example_sparse_entry, example_array_entry] = None"
    by (simp add: example_library_def example_sparse_entry_def example_array_entry_def)
  have c: "sparse_output_condition (3 / 10) [example_sparse_entry, example_frame_entry]"
    by (simp add: sparse_output_condition_def overall_density_def example_sparse_entry_def
        example_frame_entry_def)
  have d: "sparse_output_attr ?dense = Some False" by simp
  have t: "T_DataFrame \<in> set (map type_of [example_sparse_entry, example_frame_entry])"
    by (simp add: example_frame_entry_def)
  note T = hstack_sparse_precedes_dataframe
  note p1 = T[THEN conjunct1, rule_format, OF h,
      of example_library "[example_sparse_entry, example_frame_entry]"]
  note p2 = T[THEN conjunct2, THEN conjunct1, rule_format, OF conjI[OF h l]]
  note p3 = T[THEN conjunct2, THEN conjunct2, THEN conjunct1, rule_format, OF c,
      of example_library ?new]
  note p4 = T[THEN conjunct2, THEN conjunct2, THEN conjunct2, rule_format, OF d,
      THEN conjunct1, of example_library "[example_frame_entry]"]
  have p4': "ColumnTransformer_hstack example_library ?dense [example_frame_entry] =
     Inr (Pd_concat_columns [example_frame_entry])"
    using p4 by (simp add: pd_concat_columns_def example_library_def example_frame_entry_def)
  from p1 p2 p3 p4' l c t show ?thesis by simp
qed

text \<open>
  The claim as the spec has it fails: the two example entries meet the condition (one is
  sparse, the density 2 / 11 is below the threshold 0.3), the flag stored while
  fitting is clear, and \<open>_hstack\<close> goes on to \<open>pd.concat\<close>; no sparse matrix results.
\<close>

theorem hstack_ignores_density_of_entries_example:
  "sparse_output_condition (3 / 10) [example_sparse_entry, example_frame_entry] \<and>
   ColumnTransformer_hstack example_library
     \<lparr>is_fitted = True, preserve_dataframe = True, sparse_output_attr = Some False, base = ()\<rparr>
     [example_sparse_entry, example_frame_entry] =
     pd_concat_columns example_library [example_sparse_entry, example_frame_entry] \<and>
   ColumnTransformer_hstack example_library
     \<lparr>is_fitted = True, preserve_dataframe = True, sparse_output_attr = Some False, base = ()\<rparr>
     [example_sparse_entry, example_frame_entry] \<noteq>
     Inr (Sparse_hstack_tocsr [example_sparse_entry, example_frame_entry])"
  by (simp add: sparse_output_condition_def overall_density_def example_sparse_entry_def
      example_frame_entry_def ColumnTransformer_hstack_def pd_concat_columns_def
      example_library_def)

subsection \<open>Fitting the column transformer\<close>

text \<open>
  C4. \<open>ColumnTransformer.transform\<close> checks the fitted flag before anything else: on an
  object whose flag is not set the call fails with the not-fitted error, so it yields
  no output, whatever the input and whatever the base class would do. The flag is
  clear after \<open>__init__\<close>, so a new object is in that case, and a \<open>fit\<close> that the input
  validation stopped leaves the object as it was.
\<close>

theorem transform_before_fit_raises_not_fitted:
  "(\<not> is_fitted self \<longrightarrow> ColumnTransformer_transform super self X = Inl NotFittedError) \<and>
   ColumnTransformer_transform super (ColumnTransformer_init super_init preserve) X = Inl NotFittedError \<and>
   (\<not> is_fitted self \<and> check_X X' Coerce_to_pandas = Inl e \<longrightarrow>
      ColumnTransformer_fit super self X' y = (Inl e, self) \<and>
      ColumnTransformer_transform super (snd (ColumnTransformer_fit super self X' y)) X =
        Inl NotFittedError)"
  by (simp add: ColumnTransformer_transform_def check_is_fitted_def ColumnTransformer_init_def
      ColumnTransformer_fit_def)

theorem transform_before_fit_witness:
  "\<not> is_fitted (ColumnTransformer_init () True) \<and>
   ColumnTransformer_transform passthrough_super (ColumnTransformer_init () True) example_panel
     = Inl NotFittedError \<and>
   check_X (Numpy2D \<lparr>shape2 = (1, 1), items2 = [[1]]\<rparr>) Coerce_to_pandas = Inl MalformedInput \<and>
   ColumnTransformer_transform passthrough_super
     (snd (ColumnTransformer_fit passthrough_super (ColumnTransformer_init () True)
        (Numpy2D \<lparr>shape2 = (1, 1), items2 = [[1]]\<rparr>) None)) example_panel
     = Inl NotFittedError"
proof -
  have u: "\<not> is_fitted (ColumnTransformer_init () True)"
    by (simp add: ColumnTransformer_init_def)
  have c: "check_X (Numpy2D \<lparr>shape2 = (1, 1), items2 = [[1]]\<rparr>) Coerce_to_pandas = Inl MalformedInput"
    by (simp add: check_X_def)
  note T = transform_before_fit_raises_not_fitted
  note a = T[THEN conjunct1, rule_format, OF u]
  note b = T[THEN conjunct2, THEN conjunct2, rule_format, OF conjI[OF u c]]
  from u c a[of passthrough_super example_panel]
    b[THEN conjunct2, of passthrough_super None example_panel]
  show ?thesis by simp
qed

text \<open>
  C2. \<open>fit\<close> and \<open>transform\<close> pass the input through \<open>check_X\<close> with coercion to a
  nested DataFrame; \<open>fit_transform\<close> hands the raw input to the base class. With a base
  class that passes all columns through, a 3-D array is fitted and transformed into a
  DataFrame by \<open>fit\<close> followed by \<open>transform\<close>, whereas \<open>fit_transform\<close> fails in the
  output validation (the entry's output is three-dimensional) and leaves the object
  unfitted.
\<close>

theorem fit_transform_skips_check_X:
  "fst (ColumnTransformer_fit passthrough_super (ColumnTransformer_init () True) example_panel None)
     = Inr () \<and>
   ColumnTransformer_transform passthrough_super
     (snd (ColumnTransformer_fit passthrough_super (ColumnTransformer_init () True) example_panel None))
     example_panel
     = Inr (Pd_concat_columns [PdDataFrame \<lparr>shape2 = (2, 2),
         items2 = [[Series [1, 2], Series [3, 4]], [Series [5, 6], Series [7, 8]]]\<rparr>]) \<and>
   fst (ColumnTransformer_fit_transform passthrough_super (ColumnTransformer_init () True)
          example_panel None)
     = Inl (ValueError (output_2d_message ''all'')) \<and>
   \<not> is_fitted (snd (ColumnTransformer_fit_transform passthrough_super
          (ColumnTransformer_init () True) example_panel None))"
  by code_simp

subsection \<open>Concatenating columns\<close>

text \<open>
  C1. For a fitted concatenator and a valid panel of \<open>N\<close> instances (a nested DataFrame
  or a 3-D array), \<open>transform\<close> returns a nested table with exactly \<open>N\<close> rows and exactly
  one column, whatever the number of variables.
\<close>

theorem concatenator_rows_and_single_column:
  "is_fitted self \<Longrightarrow> valid_panel X \<Longrightarrow>
   \<exists>Xt. ColumnConcatenator_transform self X = Inr Xt \<and>
     shape2 Xt = (n_instances X, 1) \<and> length (items2 Xt) = n_instances X \<and>
     (\<forall>row\<in>set (items2 Xt). length row = 1)"
  by (auto simp: ColumnConcatenator_transform_def check_is_fitted_def check_X_def valid_panel_def
      from_nested_to_2d_array_def from_3d_numpy_to_2d_array_def from_2d_array_to_nested_def
      is_nested_dataframe_def wf_array2d_def wf_array3d_def
      split: panel.splits)

theorem concatenator_witness:
  "is_fitted \<lparr>is_fitted = True\<rparr> \<and> valid_panel example_panel \<and>
   ColumnConcatenator_transform \<lparr>is_fitted = True\<rparr> example_panel =
     Inr \<lparr>shape2 = (2, 1), items2 = [[Series [1, 2, 3, 4]], [Series [5, 6, 7, 8]]]\<rparr> \<and>
   valid_panel (DataFrame \<lparr>shape2 = (1, 3),
     items2 = [[Series [1, 2], Series [3, 4], Series [5, 6]]]\<rparr>) \<and>
   ColumnConcatenator_transform \<lparr>is_fitted = True\<rparr>
     (DataFrame \<lparr>shape2 = (1, 3), items2 = [[Series [1, 2], Series [3, 4], Series [5, 6]]]\<rparr>) =
     Inr \<lparr>shape2 = (1, 1), items2 = [[Series [1, 2, 3, 4, 5, 6]]]\<rparr>"
proof -
  let ?df = "DataFrame \<lparr>shape2 = (1, 3), items2 = [[Series [1, 2], Series [3, 4], Series [5, 6]]]\<rparr>"
  have f: "is_fitted \<lparr>is_fitted = True\<rparr>" by simp
  have v: "valid_panel example_panel" by code_simp
  have e: "ColumnConcatenator_transform \<lparr>is_fitted = True\<rparr> example_panel =
     Inr \<lparr>shape2 = (2, 1), items2 = [[Series [1, 2, 3, 4]], [Series [5, 6, 7, 8]]]\<rparr>"
    by code_simp
  have v2: "valid_panel ?df" by code_simp
  have e2: "ColumnConcatenator_transform \<lparr>is_fitted = True\<rparr> ?df =
     Inr \<lparr>shape2 = (1, 1), items2 = [[Series [1, 2, 3, 4, 5, 6]]]\<rparr>"
    by code_simp
  from concatenator_rows_and_single_column[OF f v] concatenator_rows_and_single_column[OF f v2]
    f v e v2 e2
  show ?thesis by simp
qed

subsection \<open>Row transformers: the loops\<close>

lemma setitem_row_Inr:
  "setitem_row Xt i v = Inr Xt' \<Longrightarrow>
   i < fst (shape2 Xt) \<and> shape2 Xt' = shape2 Xt \<and>
   (\<exists>row. broadcast_to_row (snd (shape2 Xt)) v = Inr row \<and> items2 Xt' = (items2 Xt)[i := row])"
  by (auto simp: setitem_row_def split: if_splits sum.splits)

lemma primitives_loop_Inr:
  "primitives_loop is X Xt ts = (Inr Xt', ts') \<Longrightarrow> distinct is \<Longrightarrow>
   shape2 Xt' = shape2 Xt \<and> length (items2 Xt') = length (items2 Xt) \<and> length ts' = length ts \<and>
   (\<forall>i\<in>set is. \<exists>Xi v. i < length ts \<and> getitem3 X i = Inr Xi \<and>
       fit_transform (ts ! i) (transpose2 Xi) = (Inr v, ts' ! i) \<and>
       (\<exists>row. broadcast_to_row (snd (shape2 Xt)) v = Inr row \<and>
          (i < length (items2 Xt) \<longrightarrow> items2 Xt' ! i = row))) \<and>
   (\<forall>i. i \<notin> set is \<longrightarrow> items2 Xt' ! i = items2 Xt ! i \<and> ts' ! i = ts ! i)"
proof (induction "is" arbitrary: Xt ts)
  case Nil
  then show ?case by simp
next
  case (Cons i rest)
  from Cons.prems(1) obtain Xi v t' Xt1 where
    i: "i < length ts" and Xi: "getitem3 X i = Inr Xi"
    and ft: "fit_transform (ts ! i) (transpose2 Xi) = (Inr v, t')"
    and set: "setitem_row Xt i v = Inr Xt1"
    and rec: "primitives_loop rest X Xt1 (ts[i := t']) = (Inr Xt', ts')"
    by (auto simp: getitem_def split: sum.splits if_splits prod.splits)
  from setitem_row_Inr[OF set] obtain row where
    row: "broadcast_to_row (snd (shape2 Xt)) v = Inr row" "items2 Xt1 = (items2 Xt)[i := row]"
      "shape2 Xt1 = shape2 Xt" "i < fst (shape2 Xt)"
    by blast
  from Cons.prems(2) have d: "distinct rest" "i \<notin> set rest" by simp_all
  note IH = Cons.IH[OF rec d(1)]
  have a: "items2 Xt' ! i = items2 Xt1 ! i" "ts' ! i = (ts[i := t']) ! i"
    using IH d(2) by blast+
  have "\<exists>Xi v. j < length ts \<and> getitem3 X j = Inr Xi \<and>
       fit_transform (ts ! j) (transpose2 Xi) = (Inr v, ts' ! j) \<and>
       (\<exists>row. broadcast_to_row (snd (shape2 Xt)) v = Inr row \<and>
          (j < length (items2 Xt) \<longrightarrow> items2 Xt' ! j = row))" if j: "j \<in> set (i # rest)" for j
  proof (cases "j = i")
    case True
    with a i Xi ft row show ?thesis by auto
  next
    case False
    with j have "j \<in> set rest" by simp
    with IH obtain Xj vj where "j < length (ts[i := t'])" "getitem3 X j = Inr Xj"
      "fit_transform ((ts[i := t']) ! j) (transpose2 Xj) = (Inr vj, ts' ! j)"
      "\<exists>row. broadcast_to_row (snd (shape2 Xt1)) vj = Inr row \<and>
          (j < length (items2 Xt1) \<longrightarrow> items2 Xt' ! j = row)"
      by blast
    with False row show ?thesis by auto
  qed
  moreover have "items2 Xt' ! j = items2 Xt ! j \<and> ts' ! j = ts ! j" if "j \<notin> set (i # rest)" for j
    using IH that row by auto
  ultimately show ?case using IH row by auto
qed

lemma primitives_loop_succeeds:
  "distinct is \<Longrightarrow>
   \<forall>i\<in>set is. i < length ts \<and> i < fst (shape2 Xt) \<and>
      (\<exists>Xi v row. getitem3 X i = Inr Xi \<and> fst (fit_transform (ts ! i) (transpose2 Xi)) = Inr v \<and>
         broadcast_to_row (snd (shape2 Xt)) v = Inr row) \<Longrightarrow>
   \<exists>Xt' ts'. primitives_loop is X Xt ts = (Inr Xt', ts')"
proof (induction "is" arbitrary: Xt ts)
  case Nil
  then show ?case by simp
next
  case (Cons i rest)
  from Cons.prems(2) obtain Xi v row where
    i: "i < length ts" "i < fst (shape2 Xt)" and Xi: "getitem3 X i = Inr Xi"
    and ft0: "fst (fit_transform (ts ! i) (transpose2 Xi)) = Inr v"
    and row: "broadcast_to_row (snd (shape2 Xt)) v = Inr row"
    by auto
  obtain t' where ft: "fit_transform (ts ! i) (transpose2 Xi) = (Inr v, t')"
    using ft0 by (cases "fit_transform (ts ! i) (transpose2 Xi)") simp
  let ?Xt1 = "Xt\<lparr>items2 := (items2 Xt)[i := row]\<rparr>"
  have set: "setitem_row Xt i v = Inr ?Xt1"
    using i row by (simp add: setitem_row_def)
  from Cons.prems(1) have d: "distinct rest" "i \<notin> set rest" by simp_all
  have "\<forall>j\<in>set rest. j < length (ts[i := t']) \<and> j < fst (shape2 ?Xt1) \<and>
      (\<exists>Xj v row. getitem3 X j = Inr Xj \<and>
         fst (fit_transform ((ts[i := t']) ! j) (transpose2 Xj)) = Inr v \<and>
         broadcast_to_row (snd (shape2 ?Xt1)) v = Inr row)"
  proof
    fix j assume j: "j \<in> set rest"
    with d have "j \<noteq> i" by auto
    with Cons.prems(2) j show "j < length (ts[i := t']) \<and> j < fst (shape2 ?Xt1) \<and>
      (\<exists>Xj v row. getitem3 X j = Inr Xj \<and>
         fst (fit_transform ((ts[i := t']) ! j) (transpose2 Xj)) = Inr v \<and>
         broadcast_to_row (snd (shape2 ?Xt1)) v = Inr row)"
      by simp
  qed
  from Cons.IH[OF d(1) this] obtain Xt' ts' where
    "primitives_loop rest X ?Xt1 (ts[i := t']) = (Inr Xt', ts')" by blast
  with i Xi ft set show ?case
    by (simp add: getitem_def)
qed

lemma primitives_loop_Inl:
  "primitives_loop is X Xt ts = (Inl e, ts') \<Longrightarrow> distinct is \<Longrightarrow>
   \<forall>i\<in>set is. i < length ts \<and> i < fst (shape2 Xt) \<and> (\<exists>Xi. getitem3 X i = Inr Xi) \<Longrightarrow>
   (\<forall>j. j \<notin> set is \<longrightarrow> ts' ! j = ts ! j) \<and>
   (\<exists>k<length is.
      (\<forall>m<k. \<exists>Xi v row. getitem3 X (is ! m) = Inr Xi \<and>
          fit_transform (ts ! (is ! m)) (transpose2 Xi) = (Inr v, ts' ! (is ! m)) \<and>
          broadcast_to_row (snd (shape2 Xt)) v = Inr row) \<and>
      (\<exists>Xi. getitem3 X (is ! k) = Inr Xi \<and>
         (fst (fit_transform (ts ! (is ! k)) (transpose2 Xi)) = Inl e \<or>
          (\<exists>v. fst (fit_transform (ts ! (is ! k)) (transpose2 Xi)) = Inr v \<and>
               broadcast_to_row (snd (shape2 Xt)) v = Inl e))) \<and>
      (\<forall>m. k < m \<and> m < length is \<longrightarrow> ts' ! (is ! m) = ts ! (is ! m)))"
proof (induction "is" arbitrary: Xt ts)
  case Nil
  then show ?case by simp
next
  case (Cons i rest)
  from Cons.prems(3) obtain Xi where i: "i < length ts" "i < fst (shape2 Xt)"
    and Xi: "getitem3 X i = Inr Xi" by auto
  from Cons.prems(2) have d: "distinct rest" "i \<notin> set rest" by simp_all
  obtain r t' where ft: "fit_transform (ts ! i) (transpose2 Xi) = (r, t')"
    by (cases "fit_transform (ts ! i) (transpose2 Xi)")
  have later: "ts[i := t'] ! ((i # rest) ! m) = ts ! ((i # rest) ! m)"
    if "0 < m" "m < length (i # rest)" for m
  proof -
    from that obtain m' where "m = Suc m'" "m' < length rest" by (cases m) auto
    with d(2) show ?thesis by (metis nth_Cons_Suc nth_list_update_neq nth_mem)
  qed
  let ?P = "\<lambda>k ts'. (\<forall>m<k. \<exists>Xi v row. getitem3 X ((i # rest) ! m) = Inr Xi \<and>
          fit_transform (ts ! ((i # rest) ! m)) (transpose2 Xi) = (Inr v, ts' ! ((i # rest) ! m)) \<and>
          broadcast_to_row (snd (shape2 Xt)) v = Inr row) \<and>
      (\<exists>Xi. getitem3 X ((i # rest) ! k) = Inr Xi \<and>
         (fst (fit_transform (ts ! ((i # rest) ! k)) (transpose2 Xi)) = Inl e \<or>
          (\<exists>v. fst (fit_transform (ts ! ((i # rest) ! k)) (transpose2 Xi)) = Inr v \<and>
               broadcast_to_row (snd (shape2 Xt)) v = Inl e))) \<and>
      (\<forall>m. k < m \<and> m < length (i # rest) \<longrightarrow> ts' ! ((i # rest) ! m) = ts ! ((i # rest) ! m))"
  show ?case
  proof (cases r)
    case (Inl e1)
    with Cons.prems(1) i Xi ft have "e1 = e" "ts' = ts[i := t']"
      by (simp_all add: getitem_def)
    with Inl ft Xi later have "?P 0 ts'" by auto
    moreover have "\<forall>j. j \<notin> set (i # rest) \<longrightarrow> ts' ! j = ts ! j"
      using \<open>ts' = ts[i := t']\<close> by auto
    ultimately show ?thesis by blast
  next
    case (Inr v)
    show ?thesis
    proof (cases "broadcast_to_row (snd (shape2 Xt)) v")
      case (Inl e1)
      with Cons.prems(1) i Xi ft Inr have "e1 = e" "ts' = ts[i := t']"
        by (simp_all add: getitem_def setitem_row_def)
      with Inl Inr ft Xi later have "?P 0 ts'" by auto
      moreover have "\<forall>j. j \<notin> set (i # rest) \<longrightarrow> ts' ! j = ts ! j"
        using \<open>ts' = ts[i := t']\<close> by auto
      ultimately show ?thesis by blast
    next
      case row: (Inr row)
      let ?Xt1 = "Xt\<lparr>items2 := (items2 Xt)[i := row]\<rparr>"
      from Cons.prems(1) i Xi ft Inr row
      have rec: "primitives_loop rest X ?Xt1 (ts[i := t']) = (Inl e, ts')"
        by (simp add: getitem_def setitem_row_def)
      have pre: "\<forall>j\<in>set rest. j < length (ts[i := t']) \<and> j < fst (shape2 ?Xt1) \<and>
          (\<exists>Xj. getitem3 X j = Inr Xj)"
        using Cons.prems(3) by simp
      from Cons.IH[OF rec d(1) pre] obtain k where
        out: "\<forall>j. j \<notin> set rest \<longrightarrow> ts' ! j = ts[i := t'] ! j" and k: "k < length rest"
        and before: "\<forall>m<k. \<exists>Xi v row. getitem3 X (rest ! m) = Inr Xi \<and>
          fit_transform (ts[i := t'] ! (rest ! m)) (transpose2 Xi) = (Inr v, ts' ! (rest ! m)) \<and>
          broadcast_to_row (snd (shape2 Xt)) v = Inr row"
        and at: "\<exists>Xi. getitem3 X (rest ! k) = Inr Xi \<and>
         (fst (fit_transform (ts[i := t'] ! (rest ! k)) (transpose2 Xi)) = Inl e \<or>
          (\<exists>v. fst (fit_transform (ts[i := t'] ! (rest ! k)) (transpose2 Xi)) = Inr v \<and>
               broadcast_to_row (snd (shape2 Xt)) v = Inl e))"
        and after: "\<forall>m. k < m \<and> m < length rest \<longrightarrow> ts' ! (rest ! m) = ts[i := t'] ! (rest ! m)"
        by auto
      have ti: "ts' ! i = t'" using out d(2) i by simp
      have same: "ts[i := t'] ! (rest ! m) = ts ! (rest ! m)" if "m < length rest" for m
        using that d(2) by (metis nth_list_update_neq nth_mem)
      have "\<exists>Xi v row. getitem3 X ((i # rest) ! m) = Inr Xi \<and>
          fit_transform (ts ! ((i # rest) ! m)) (transpose2 Xi) = (Inr v, ts' ! ((i # rest) ! m)) \<and>
          broadcast_to_row (snd (shape2 Xt)) v = Inr row" if "m < Suc k" for m
      proof (cases m)
        case 0
        with Xi ft Inr row ti show ?thesis by auto
      next
        case (Suc m')
        with that k have "m' < k" "m' < length rest" by simp_all
        with before same Suc show ?thesis by auto
      qed
      moreover have "\<exists>Xi. getitem3 X ((i # rest) ! Suc k) = Inr Xi \<and>
         (fst (fit_transform (ts ! ((i # rest) ! Suc k)) (transpose2 Xi)) = Inl e \<or>
          (\<exists>v. fst (fit_transform (ts ! ((i # rest) ! Suc k)) (transpose2 Xi)) = Inr v \<and>
               broadcast_to_row (snd (shape2 Xt)) v = Inl e))"
        using at same[OF k] by simp
      moreover have "ts' ! ((i # rest) ! m) = ts ! ((i # rest) ! m)"
        if "Suc k < m \<and> m < length (i # rest)" for m
      proof -
        from that obtain m' where "m = Suc m'" "k < m'" "m' < length rest" by (cases m) auto
        with after same show ?thesis by simp
      qed
      ultimately have "?P (Suc k) ts'" by blast
      moreover have "\<forall>j. j \<notin> set (i # rest) \<longrightarrow> ts' ! j = ts ! j"
        using out by auto
      moreover have "Suc k < length (i # rest)" using k by simp
      ultimately show ?thesis by blast
    qed
  qed
qed

lemma series_loop_Inr:
  "series_loop is X xts ts = (Inr xts', ts') \<Longrightarrow> distinct is \<Longrightarrow>
   length ts' = length ts \<and>
   (\<exists>blocks. xts' = xts @ blocks \<and> length blocks = length is \<and>
      (\<forall>k<length is. \<exists>Xi xt xt2. is ! k < length ts \<and> getitem3 X (is ! k) = Inr Xi \<and>
          fit_transform (ts ! (is ! k)) (transpose2 Xi) = (Inr xt, ts' ! (is ! k)) \<and>
          ndarray_2d xt = Inr xt2 \<and>
          blocks ! k = transpose2 (from_2d_array_to_nested (transpose2 xt2)))) \<and>
   (\<forall>i. i \<notin> set is \<longrightarrow> ts' ! i = ts ! i)"
proof (induction "is" arbitrary: xts ts)
  case Nil
  then show ?case by simp
next
  case (Cons i rest)
  from Cons.prems(1) obtain Xi xt t' xt2 where
    i: "i < length ts" and Xi: "getitem3 X i = Inr Xi"
    and ft: "fit_transform (ts ! i) (transpose2 Xi) = (Inr xt, t')"
    and xt2: "ndarray_2d xt = Inr xt2"
    and rec: "series_loop rest X (xts @ [transpose2 (from_2d_array_to_nested (transpose2 xt2))])
                (ts[i := t']) = (Inr xts', ts')"
    by (auto simp: getitem_def split: sum.splits if_splits prod.splits)
  from Cons.prems(2) have d: "distinct rest" "i \<notin> set rest" by simp_all
  note IH = Cons.IH[OF rec d(1)]
  then obtain blocks where
    b: "xts' = (xts @ [transpose2 (from_2d_array_to_nested (transpose2 xt2))]) @ blocks"
      "length blocks = length rest"
      "\<forall>k<length rest. \<exists>Xi xt xt2. rest ! k < length (ts[i := t']) \<and>
          getitem3 X (rest ! k) = Inr Xi \<and>
          fit_transform ((ts[i := t']) ! (rest ! k)) (transpose2 Xi) = (Inr xt, ts' ! (rest ! k)) \<and>
          ndarray_2d xt = Inr xt2 \<and>
          blocks ! k = transpose2 (from_2d_array_to_nested (transpose2 xt2))"
    by blast
  let ?b = "transpose2 (from_2d_array_to_nested (transpose2 xt2)) # blocks"
  have ti: "ts' ! i = t'" using IH d(2) i by simp
  have "\<exists>Xi xt xt2. (i # rest) ! k < length ts \<and> getitem3 X ((i # rest) ! k) = Inr Xi \<and>
          fit_transform (ts ! ((i # rest) ! k)) (transpose2 Xi) = (Inr xt, ts' ! ((i # rest) ! k)) \<and>
          ndarray_2d xt = Inr xt2 \<and>
          ?b ! k = transpose2 (from_2d_array_to_nested (transpose2 xt2))"
    if k: "k < length (i # rest)" for k
  proof (cases k)
    case 0
    with i Xi ft xt2 ti show ?thesis by auto
  next
    case (Suc k')
    with k have k': "k' < length rest" by simp
    then have "rest ! k' \<noteq> i" using d(2) by (metis nth_mem)
    with b(3) k' Suc show ?thesis by auto
  qed
  moreover have "xts' = xts @ ?b" "length ?b = length (i # rest)"
    using b by simp_all
  moreover have "\<forall>j. j \<notin> set (i # rest) \<longrightarrow> ts' ! j = ts ! j"
    using IH by auto
  moreover have "length ts' = length ts" using IH by simp
  ultimately show ?case by blast
qed

lemma prod_list_dropWhile_one: "prod_list (dropWhile (\<lambda>k. k = 1) xs) = prod_list (xs :: nat list)"
  by (induction xs) auto

lemma broadcast_to_row_length: "broadcast_to_row d v = Inr row \<Longrightarrow> length row = d"
  using prod_list_dropWhile_one[of "nd_shape v"]
  by (auto simp: broadcast_to_row_def Let_def split: if_splits)

lemma nested_row_eq:
  "transpose2 (from_2d_array_to_nested B) =
     \<lparr>shape2 = (1, fst (shape2 B)), items2 = [map Series (items2 B)]\<rparr>"
  by (simp add: transpose2_def from_2d_array_to_nested_def comp_def)

lemma concat_single_rows:
  "\<forall>b\<in>set xts. \<exists>row. items2 b = [row] \<Longrightarrow>
   concat (map (\<lambda>b. map f (items2 b)) xts) = map (\<lambda>b. f (hd (items2 b))) xts"
  by (induction xts) auto

lemma pd_concat_rows_single:
  assumes "xts \<noteq> []" "\<forall>b\<in>set xts. \<exists>row. items2 b = [row] \<and> fst (shape2 b) = 1"
  shows "\<exists>df. pd_concat_rows xts = Inr df \<and> fst (shape2 df) = length xts \<and>
     length (items2 df) = length xts \<and>
     (\<forall>i<length xts. items2 df ! i =
        hd (items2 (xts ! i)) @ replicate (snd (shape2 df) - length (hd (items2 (xts ! i)))) NaN)"
proof -
  have 1: "\<forall>b\<in>set xts. \<exists>row. items2 b = [row]"
    using assms(2) by blast
  have 3: "sum_list (map (\<lambda>b. fst (shape2 b)) xts) = length xts"
    using assms(2) by (induction xts) auto
  show ?thesis
    using assms(1) 3
    by (simp add: pd_concat_rows_def Let_def concat_single_rows[OF 1])
qed

subsection \<open>Row transformers: preparation and the two transforms\<close>

lemma instance_T_time_first:
  "shape2 (instance_T A i) = (snd (snd (shape3 A)), fst (snd (shape3 A)))"
  by (simp add: instance_T_def transpose2_def)

lemma instance_T_nth:
  assumes "wf_array3d A" "i < fst (shape3 A)" "t < snd (snd (shape3 A))" "d < fst (snd (shape3 A))"
  shows "items2 (instance_T A i) ! t ! d = items3 A ! i ! d ! t"
proof -
  from assms(1,2) have "length (items3 A ! i) = fst (snd (shape3 A))"
    by (simp add: wf_array3d_def list_all_length)
  with assms(3,4) show ?thesis
    by (simp add: instance_T_def transpose2_def)
qed

lemma check_X_numpy_wf:
  "check_X X Coerce_to_numpy = Inr (Numpy3D A) \<Longrightarrow> wf_array3d A"
  by (auto simp: check_X_def from_nested_to_3d_numpy_def is_nested_dataframe_def wf_array2d_def
      wf_array3d_def equal_length_def list_all_iff split: panel.splits if_splits sum.splits)

lemma prepare_Inr:
  "RowTransformer_prepare self X = (Inr A, self') \<Longrightarrow>
   is_fitted self \<and> RowTransformer_check_transformer self = Inr () \<and>
   check_X X Coerce_to_numpy = Inr (Numpy3D A) \<and>
   self' = self\<lparr>transformer_attr := Some (map (\<lambda>_. clone (transformer self)) [0..<fst (shape3 A)])\<rparr>"
  by (auto simp: RowTransformer_prepare_def check_is_fitted_def
      split: if_splits sum.splits panel.splits)

lemma prepare_succeeds:
  "is_fitted self \<Longrightarrow> RowTransformer_check_transformer self = Inr () \<Longrightarrow>
   check_X X Coerce_to_numpy = Inr (Numpy3D A) \<Longrightarrow>
   RowTransformer_prepare self X =
     (Inr A, self\<lparr>transformer_attr := Some (map (\<lambda>_. clone (transformer self)) [0..<fst (shape3 A)])\<rparr>)"
  by (simp add: RowTransformer_prepare_def check_is_fitted_def)

lemma getitem3_wf:
  "wf_array3d A \<Longrightarrow> i < fst (shape3 A) \<Longrightarrow>
   getitem3 A i = Inr \<lparr>shape2 = snd (shape3 A), items2 = items3 A ! i\<rparr>"
  by (simp add: getitem3_def wf_array3d_def)

lemma primitives_transform_Inr:
  assumes "SeriesToPrimitivesRowTransformer_transform self X = (Inr df, self')"
  shows "\<exists>A ts. check_X X Coerce_to_numpy = Inr (Numpy3D A) \<and> wf_array3d A \<and>
     is_fitted self \<and> RowTransformer_check_transformer self = Inr () \<and>
     shape2 df = (fst (shape3 A), fst (snd (shape3 A))) \<and>
     length (items2 df) = fst (shape3 A) \<and>
     self' = self\<lparr>transformer_attr := Some ts\<rparr> \<and> length ts = fst (shape3 A) \<and>
     (\<forall>i<fst (shape3 A). \<exists>v.
        fit_transform (clone (transformer self))
          (transpose2 \<lparr>shape2 = snd (shape3 A), items2 = items3 A ! i\<rparr>) = (Inr v, ts ! i) \<and>
        broadcast_to_row (fst (snd (shape3 A))) v = Inr (items2 df ! i))"
proof -
  from assms obtain A self1 where prep: "RowTransformer_prepare self X = (Inr A, self1)"
    by (auto simp: SeriesToPrimitivesRowTransformer_transform_def split: prod.splits sum.splits)
  let ?N = "fst (shape3 A)" and ?D = "fst (snd (shape3 A))"
  let ?ts = "map (\<lambda>_. clone (transformer self)) [0..<?N]"
  note p = prepare_Inr[OF prep]
  then have wf: "wf_array3d A" using check_X_numpy_wf by blast
  from assms prep p obtain ts' where
    loop: "primitives_loop [0..<?N] A (np_zeros (?N, ?D)) ?ts = (Inr df, ts')"
    and self': "self' = self\<lparr>transformer_attr := Some ts'\<rparr>"
    by (auto simp: SeriesToPrimitivesRowTransformer_transform_def split: prod.splits sum.splits)
  note L = primitives_loop_Inr[OF loop distinct_upt]
  have "\<exists>v. fit_transform (clone (transformer self))
          (transpose2 \<lparr>shape2 = snd (shape3 A), items2 = items3 A ! i\<rparr>) = (Inr v, ts' ! i) \<and>
        broadcast_to_row ?D v = Inr (items2 df ! i)" if i: "i < ?N" for i
  proof -
    from i have "i \<in> set [0..<?N]" by simp
    with L obtain Xi v row where "getitem3 A i = Inr Xi"
      "fit_transform (?ts ! i) (transpose2 Xi) = (Inr v, ts' ! i)"
      "broadcast_to_row (snd (shape2 (np_zeros (?N, ?D)))) v = Inr row"
      "i < length (items2 (np_zeros (?N, ?D))) \<longrightarrow> items2 df ! i = row"
      by blast
    with i getitem3_wf[OF wf i] show ?thesis
      by (auto simp: np_zeros_def)
  qed
  with L p wf self' show ?thesis
    by (auto simp: np_zeros_def)
qed

lemma primitives_transform_succeeds:
  assumes "is_fitted self" "RowTransformer_check_transformer self = Inr ()"
    "check_X X Coerce_to_numpy = Inr (Numpy3D A)"
    "\<forall>i<fst (shape3 A). \<exists>v row.
        fst (fit_transform (clone (transformer self)) (instance_T A i)) = Inr v \<and>
        broadcast_to_row (fst (snd (shape3 A))) v = Inr row"
  shows "\<exists>df self'. SeriesToPrimitivesRowTransformer_transform self X = (Inr df, self')"
proof -
  let ?N = "fst (shape3 A)" and ?D = "fst (snd (shape3 A))"
  let ?ts = "map (\<lambda>_. clone (transformer self)) [0..<?N]"
  have wf: "wf_array3d A" using assms(3) by (rule check_X_numpy_wf)
  have "\<forall>i\<in>set [0..<?N]. i < length ?ts \<and> i < fst (shape2 (np_zeros (?N, ?D))) \<and>
      (\<exists>Xi v row. getitem3 A i = Inr Xi \<and> fst (fit_transform (?ts ! i) (transpose2 Xi)) = Inr v \<and>
         broadcast_to_row (snd (shape2 (np_zeros (?N, ?D)))) v = Inr row)"
    using assms(4) getitem3_wf[OF wf] by (auto simp: np_zeros_def instance_T_def)
  from primitives_loop_succeeds[OF distinct_upt this] obtain Xt' ts' where
    "primitives_loop [0..<?N] A (np_zeros (?N, ?D)) ?ts = (Inr Xt', ts')" by blast
  then show ?thesis
    using prepare_succeeds[OF assms(1-3)]
    by (simp add: SeriesToPrimitivesRowTransformer_transform_def)
qed

lemma primitives_transform_Inl:
  assumes "is_fitted self" "RowTransformer_check_transformer self = Inr ()"
    "check_X X Coerce_to_numpy = Inr (Numpy3D A)"
    "SeriesToPrimitivesRowTransformer_transform self X = (Inl e, self')"
  shows "\<exists>k<fst (shape3 A). \<exists>ts. self' = self\<lparr>transformer_attr := Some ts\<rparr> \<and>
     (\<forall>m<k. \<exists>v row.
         fit_transform (clone (transformer self)) (instance_T A m) = (Inr v, ts ! m) \<and>
         broadcast_to_row (fst (snd (shape3 A))) v = Inr row) \<and>
     (fst (fit_transform (clone (transformer self)) (instance_T A k)) = Inl e \<or>
      (\<exists>v. fst (fit_transform (clone (transformer self)) (instance_T A k)) = Inr v \<and>
           broadcast_to_row (fst (snd (shape3 A))) v = Inl e)) \<and>
     (\<forall>m. k < m \<and> m < fst (shape3 A) \<longrightarrow> ts ! m = clone (transformer self))"
proof -
  let ?N = "fst (shape3 A)" and ?D = "fst (snd (shape3 A))"
  let ?ts = "map (\<lambda>_. clone (transformer self)) [0..<?N]"
  have wf: "wf_array3d A" using assms(3) by (rule check_X_numpy_wf)
  from assms(4) prepare_succeeds[OF assms(1-3)] obtain ts' where
    loop: "primitives_loop [0..<?N] A (np_zeros (?N, ?D)) ?ts = (Inl e, ts')"
    and self': "self' = self\<lparr>transformer_attr := Some ts'\<rparr>"
    by (auto simp: SeriesToPrimitivesRowTransformer_transform_def split: prod.splits)
  have pre: "\<forall>i\<in>set [0..<?N]. i < length ?ts \<and> i < fst (shape2 (np_zeros (?N, ?D))) \<and>
      (\<exists>Xi. getitem3 A i = Inr Xi)"
    using getitem3_wf[OF wf] by (simp add: np_zeros_def)
  from primitives_loop_Inl[OF loop distinct_upt pre] obtain k where k: "k < ?N"
    and before: "\<forall>m<k. \<exists>Xi v row. getitem3 A ([0..<?N] ! m) = Inr Xi \<and>
          fit_transform (?ts ! ([0..<?N] ! m)) (transpose2 Xi) = (Inr v, ts' ! ([0..<?N] ! m)) \<and>
          broadcast_to_row (snd (shape2 (np_zeros (?N, ?D)))) v = Inr row"
    and at: "\<exists>Xi. getitem3 A ([0..<?N] ! k) = Inr Xi \<and>
         (fst (fit_transform (?ts ! ([0..<?N] ! k)) (transpose2 Xi)) = Inl e \<or>
          (\<exists>v. fst (fit_transform (?ts ! ([0..<?N] ! k)) (transpose2 Xi)) = Inr v \<and>
               broadcast_to_row (snd (shape2 (np_zeros (?N, ?D)))) v = Inl e))"
    and after: "\<forall>m. k < m \<and> m < length [0..<?N] \<longrightarrow> ts' ! ([0..<?N] ! m) = ?ts ! ([0..<?N] ! m)"
    by auto
  have 1: "\<forall>m<k. \<exists>v row.
         fit_transform (clone (transformer self)) (instance_T A m) = (Inr v, ts' ! m) \<and>
         broadcast_to_row ?D v = Inr row"
  proof (intro allI impI)
    fix m assume m: "m < k"
    with k have mN: "m < ?N" by simp
    with before m getitem3_wf[OF wf mN] show "\<exists>v row.
         fit_transform (clone (transformer self)) (instance_T A m) = (Inr v, ts' ! m) \<and>
         broadcast_to_row ?D v = Inr row"
      by (auto simp: np_zeros_def instance_T_def)
  qed
  have 2: "fst (fit_transform (clone (transformer self)) (instance_T A k)) = Inl e \<or>
      (\<exists>v. fst (fit_transform (clone (transformer self)) (instance_T A k)) = Inr v \<and>
           broadcast_to_row ?D v = Inl e)"
    using at k getitem3_wf[OF wf k] by (auto simp: np_zeros_def instance_T_def)
  have 3: "\<forall>m. k < m \<and> m < ?N \<longrightarrow> ts' ! m = clone (transformer self)"
    using after by auto
  from k self' 1 2 3 show ?thesis by blast
qed

lemma series_transform_Inr:
  assumes "SeriesToSeriesRowTransformer_transform self X = (Inr df, self')"
  shows "\<exists>A ts. check_X X Coerce_to_numpy = Inr (Numpy3D A) \<and> wf_array3d A \<and>
     is_fitted self \<and> RowTransformer_check_transformer self = Inr () \<and>
     fst (shape2 df) = fst (shape3 A) \<and> length (items2 df) = fst (shape3 A) \<and>
     self' = self\<lparr>transformer_attr := Some ts\<rparr> \<and> length ts = fst (shape3 A) \<and>
     (\<forall>i<fst (shape3 A). \<exists>xt xt2.
        fit_transform (clone (transformer self))
          (transpose2 \<lparr>shape2 = snd (shape3 A), items2 = items3 A ! i\<rparr>) = (Inr xt, ts ! i) \<and>
        ndarray_2d xt = Inr xt2 \<and>
        items2 df ! i = map Series (items2 (transpose2 xt2)) @
           replicate (snd (shape2 df) - length (items2 (transpose2 xt2))) NaN)"
proof -
  from assms obtain A self1 where prep: "RowTransformer_prepare self X = (Inr A, self1)"
    by (auto simp: SeriesToSeriesRowTransformer_transform_def split: prod.splits sum.splits)
  let ?N = "fst (shape3 A)"
  let ?ts = "map (\<lambda>_. clone (transformer self)) [0..<?N]"
  note p = prepare_Inr[OF prep]
  then have wf: "wf_array3d A" using check_X_numpy_wf by blast
  from assms prep p obtain xts ts' where
    loop: "series_loop [0..<?N] A [] ?ts = (Inr xts, ts')"
    and cat: "pd_concat_rows xts = Inr df"
    and self': "self' = self\<lparr>transformer_attr := Some ts'\<rparr>"
    by (auto simp: SeriesToSeriesRowTransformer_transform_def split: prod.splits sum.splits)
  from series_loop_Inr[OF loop distinct_upt] have len: "length ts' = ?N" "length xts = ?N"
    and blk: "\<forall>k<?N. \<exists>Xi xt xt2. getitem3 A k = Inr Xi \<and>
          fit_transform (clone (transformer self)) (transpose2 Xi) = (Inr xt, ts' ! k) \<and>
          ndarray_2d xt = Inr xt2 \<and>
          xts ! k = transpose2 (from_2d_array_to_nested (transpose2 xt2))"
    by auto
  have one: "\<forall>b\<in>set xts. \<exists>row. items2 b = [row] \<and> fst (shape2 b) = 1"
  proof
    fix b assume "b \<in> set xts"
    then obtain k where "k < ?N" "b = xts ! k" using len by (metis in_set_conv_nth)
    with blk show "\<exists>row. items2 b = [row] \<and> fst (shape2 b) = 1"
      by (auto simp: nested_row_eq)
  qed
  from cat have ne: "xts \<noteq> []" by (auto simp: pd_concat_rows_def split: if_splits)
  from pd_concat_rows_single[OF ne one] cat have df: "fst (shape2 df) = ?N" "length (items2 df) = ?N"
    "\<forall>i<?N. items2 df ! i =
        hd (items2 (xts ! i)) @ replicate (snd (shape2 df) - length (hd (items2 (xts ! i)))) NaN"
    using len by auto
  have "\<exists>xt xt2.
        fit_transform (clone (transformer self))
          (transpose2 \<lparr>shape2 = snd (shape3 A), items2 = items3 A ! i\<rparr>) = (Inr xt, ts' ! i) \<and>
        ndarray_2d xt = Inr xt2 \<and>
        items2 df ! i = map Series (items2 (transpose2 xt2)) @
           replicate (snd (shape2 df) - length (items2 (transpose2 xt2))) NaN" if i: "i < ?N" for i
  proof -
    from blk i obtain Xi xt xt2 where "getitem3 A i = Inr Xi"
          "fit_transform (clone (transformer self)) (transpose2 Xi) = (Inr xt, ts' ! i)"
          "ndarray_2d xt = Inr xt2"
          "xts ! i = transpose2 (from_2d_array_to_nested (transpose2 xt2))"
      by blast
    with df(3) i getitem3_wf[OF wf i] show ?thesis
      by (auto simp: nested_row_eq)
  qed
  with p wf self' df len show ?thesis by auto
qed

lemma primitives_rows_length:
  assumes "SeriesToPrimitivesRowTransformer_transform self X = (Inr df, self')"
    "check_X X Coerce_to_numpy = Inr (Numpy3D A)"
  shows "shape2 df = (fst (shape3 A), fst (snd (shape3 A))) \<and>
     length (items2 df) = fst (shape3 A) \<and>
     (\<forall>row\<in>set (items2 df). length row = fst (snd (shape3 A)))"
proof -
  from primitives_transform_Inr[OF assms(1)] assms(2) obtain ts where
    s: "shape2 df = (fst (shape3 A), fst (snd (shape3 A)))" "length (items2 df) = fst (shape3 A)"
    and r: "\<forall>i<fst (shape3 A). \<exists>v.
        fit_transform (clone (transformer self))
          (transpose2 \<lparr>shape2 = snd (shape3 A), items2 = items3 A ! i\<rparr>) = (Inr v, ts ! i) \<and>
        broadcast_to_row (fst (snd (shape3 A))) v = Inr (items2 df ! i)"
    by auto
  have "length row = fst (snd (shape3 A))" if "row \<in> set (items2 df)" for row
  proof -
    from that s(2) obtain i where "i < fst (shape3 A)" "row = items2 df ! i"
      by (metis in_set_conv_nth)
    with r show ?thesis by (auto dest: broadcast_to_row_length)
  qed
  with s show ?thesis by blast
qed

lemma example_primitives_result:
  "fst (SeriesToPrimitivesRowTransformer_transform example_primitives example_panel) =
     Inr \<lparr>shape2 = (2, 2), items2 = [[1, 3], [5, 7]]\<rparr>"
  by code_simp

lemma example_series_result:
  "fst (SeriesToSeriesRowTransformer_transform example_series example_panel) =
     Inr \<lparr>shape2 = (2, 2), items2 = [[Series [1, 2], Series [3, 4]], [Series [5, 6], Series [7, 8]]]\<rparr>"
  by code_simp

lemma example_nonnegative_result:
  "fst (SeriesToPrimitivesRowTransformer_transform example_nonnegative example_panel_negative) =
     Inl (ValueError ''negative observation'')"
  by code_simp

text \<open>
  C8. The row transformers work through the instances in the order of their indices,
  each with a clone of the template of its own, fitted and applied to the instance
  transposed (time first, variables second). Row \<open>i\<close> of the result comes from instance
  \<open>i\<close>: for the series-to-primitives transformer it is the output for instance \<open>i\<close>
  broadcast to a row, for the series-to-series transformer it holds the columns of the
  output for instance \<open>i\<close> as series, padded with missing cells up to the widest row.
  The order of processing shows when an instance fails: the call raises the error of
  the first instance \<open>k\<close> that fails, the clones of the instances before \<open>k\<close> have been
  fitted, and the clones of the instances after \<open>k\<close> are still as \<open>clone\<close> made them.
  What a clone receives for instance \<open>i\<close> has shape \<open>(T, D)\<close>, and its element at time \<open>t\<close>
  and variable \<open>d\<close> is the element of the instance at variable \<open>d\<close> and time \<open>t\<close>.
\<close>

theorem row_transformers_keep_instance_order:
  "(SeriesToPrimitivesRowTransformer_transform self X = (Inr df, self') \<longrightarrow>
      (\<exists>A. check_X X Coerce_to_numpy = Inr (Numpy3D A) \<and>
         length (items2 df) = fst (shape3 A) \<and>
         (\<forall>i<fst (shape3 A). \<exists>v.
            fst (fit_transform (clone (transformer self)) (instance_T A i)) = Inr v \<and>
            broadcast_to_row (fst (snd (shape3 A))) v = Inr (items2 df ! i)))) \<and>
   (SeriesToSeriesRowTransformer_transform self X = (Inr nf, self'') \<longrightarrow>
      (\<exists>A. check_X X Coerce_to_numpy = Inr (Numpy3D A) \<and>
         length (items2 nf) = fst (shape3 A) \<and>
         (\<forall>i<fst (shape3 A). \<exists>xt xt2.
            fst (fit_transform (clone (transformer self)) (instance_T A i)) = Inr xt \<and>
            ndarray_2d xt = Inr xt2 \<and>
            items2 nf ! i = map Series (items2 (transpose2 xt2)) @
              replicate (snd (shape2 nf) - length (items2 (transpose2 xt2))) NaN))) \<and>
   (is_fitted self \<and> RowTransformer_check_transformer self = Inr () \<and>
    check_X X Coerce_to_numpy = Inr (Numpy3D B) \<and>
    SeriesToPrimitivesRowTransformer_transform self X = (Inl e, failed) \<longrightarrow>
      (\<exists>k<fst (shape3 B). \<exists>ts. failed = self\<lparr>transformer_attr := Some ts\<rparr> \<and>
         (\<forall>m<k. \<exists>v row.
             fit_transform (clone (transformer self)) (instance_T B m) = (Inr v, ts ! m) \<and>
             broadcast_to_row (fst (snd (shape3 B))) v = Inr row) \<and>
         (fst (fit_transform (clone (transformer self)) (instance_T B k)) = Inl e \<or>
          (\<exists>v. fst (fit_transform (clone (transformer self)) (instance_T B k)) = Inr v \<and>
               broadcast_to_row (fst (snd (shape3 B))) v = Inl e)) \<and>
         (\<forall>m. k < m \<and> m < fst (shape3 B) \<longrightarrow> ts ! m = clone (transformer self)))) \<and>
   shape2 (instance_T C i) = (snd (snd (shape3 C)), fst (snd (shape3 C))) \<and>
   (wf_array3d C \<and> i < fst (shape3 C) \<and> t < snd (snd (shape3 C)) \<and> d < fst (snd (shape3 C)) \<longrightarrow>
      items2 (instance_T C i) ! t ! d = items3 C ! i ! d ! t)"
proof (intro conjI impI)
  assume "SeriesToPrimitivesRowTransformer_transform self X = (Inr df, self')"
  from primitives_transform_Inr[OF this] obtain A ts where
    "check_X X Coerce_to_numpy = Inr (Numpy3D A)" "length (items2 df) = fst (shape3 A)"
    "\<forall>i<fst (shape3 A). \<exists>v.
        fit_transform (clone (transformer self)) (instance_T A i) = (Inr v, ts ! i) \<and>
        broadcast_to_row (fst (snd (shape3 A))) v = Inr (items2 df ! i)"
    unfolding instance_T_def by blast
  then show "\<exists>A. check_X X Coerce_to_numpy = Inr (Numpy3D A) \<and>
         length (items2 df) = fst (shape3 A) \<and>
         (\<forall>i<fst (shape3 A). \<exists>v.
            fst (fit_transform (clone (transformer self)) (instance_T A i)) = Inr v \<and>
            broadcast_to_row (fst (snd (shape3 A))) v = Inr (items2 df ! i))"
    by (intro exI[of _ A]) fastforce
next
  assume "SeriesToSeriesRowTransformer_transform self X = (Inr nf, self'')"
  from series_transform_Inr[OF this] obtain A ts where
    "check_X X Coerce_to_numpy = Inr (Numpy3D A)" "length (items2 nf) = fst (shape3 A)"
    "\<forall>i<fst (shape3 A). \<exists>xt xt2.
        fit_transform (clone (transformer self)) (instance_T A i) = (Inr xt, ts ! i) \<and>
        ndarray_2d xt = Inr xt2 \<and>
        items2 nf ! i = map Series (items2 (transpose2 xt2)) @
           replicate (snd (shape2 nf) - length (items2 (transpose2 xt2))) NaN"
    unfolding instance_T_def by blast
  then show "\<exists>A. check_X X Coerce_to_numpy = Inr (Numpy3D A) \<and>
         length (items2 nf) = fst (shape3 A) \<and>
         (\<forall>i<fst (shape3 A). \<exists>xt xt2.
            fst (fit_transform (clone (transformer self)) (instance_T A i)) = Inr xt \<and>
            ndarray_2d xt = Inr xt2 \<and>
            items2 nf ! i = map Series (items2 (transpose2 xt2)) @
              replicate (snd (shape2 nf) - length (items2 (transpose2 xt2))) NaN)"
    by (intro exI[of _ A]) fastforce
next
  assume "is_fitted self \<and> RowTransformer_check_transformer self = Inr () \<and>
    check_X X Coerce_to_numpy = Inr (Numpy3D B) \<and>
    SeriesToPrimitivesRowTransformer_transform self X = (Inl e, failed)"
  then show "\<exists>k<fst (shape3 B). \<exists>ts. failed = self\<lparr>transformer_attr := Some ts\<rparr> \<and>
         (\<forall>m<k. \<exists>v row.
             fit_transform (clone (transformer self)) (instance_T B m) = (Inr v, ts ! m) \<and>
             broadcast_to_row (fst (snd (shape3 B))) v = Inr row) \<and>
         (fst (fit_transform (clone (transformer self)) (instance_T B k)) = Inl e \<or>
          (\<exists>v. fst (fit_transform (clone (transformer self)) (instance_T B k)) = Inr v \<and>
               broadcast_to_row (fst (snd (shape3 B))) v = Inl e)) \<and>
         (\<forall>m. k < m \<and> m < fst (shape3 B) \<longrightarrow> ts ! m = clone (transformer self))"
    using primitives_transform_Inl[of self X B e failed] by blast
next
  show "shape2 (instance_T C i) = (snd (snd (shape3 C)), fst (snd (shape3 C)))"
    by (rule instance_T_time_first)
next
  assume "wf_array3d C \<and> i < fst (shape3 C) \<and> t < snd (snd (shape3 C)) \<and> d < fst (snd (shape3 C))"
  then show "items2 (instance_T C i) ! t ! d = items3 C ! i ! d ! t"
    by (simp add: instance_T_nth)
qed

theorem row_transformers_keep_instance_order_witness:
  "fst (SeriesToPrimitivesRowTransformer_transform example_primitives example_panel) =
     Inr \<lparr>shape2 = (2, 2), items2 = [[1, 3], [5, 7]]\<rparr> \<and>
   (\<exists>A. check_X example_panel Coerce_to_numpy = Inr (Numpy3D A) \<and>
      (\<forall>i<fst (shape3 A). \<exists>v.
          fst (fit_transform (clone (transformer example_primitives)) (instance_T A i)) = Inr v \<and>
          broadcast_to_row (fst (snd (shape3 A))) v = Inr ([[1, 3], [5, 7]] ! i))) \<and>
   fst (SeriesToSeriesRowTransformer_transform example_series example_panel) =
     Inr \<lparr>shape2 = (2, 2),
          items2 = [[Series [1, 2], Series [3, 4]], [Series [5, 6], Series [7, 8]]]\<rparr> \<and>
   (\<exists>A. check_X example_panel Coerce_to_numpy = Inr (Numpy3D A) \<and>
      (\<forall>i<fst (shape3 A). \<exists>xt xt2.
          fst (fit_transform (clone (transformer example_series)) (instance_T A i)) = Inr xt \<and>
          ndarray_2d xt = Inr xt2 \<and>
          [[Series [1, 2], Series [3, 4]], [Series [5, 6], Series [7, 8]]] ! i =
            map Series (items2 (transpose2 xt2)) @
              replicate (2 - length (items2 (transpose2 xt2))) NaN)) \<and>
   is_fitted example_nonnegative \<and>
   RowTransformer_check_transformer example_nonnegative = Inr () \<and>
   check_X example_panel_negative Coerce_to_numpy =
     Inr (Numpy3D \<lparr>shape3 = (3, 1, 2), items3 = [[[1, 2]], [[- 1, 2]], [[3, 4]]]\<rparr>) \<and>
   fst (SeriesToPrimitivesRowTransformer_transform example_nonnegative example_panel_negative) =
     Inl (ValueError ''negative observation'') \<and>
   (\<exists>k<3. \<exists>ts.
      snd (SeriesToPrimitivesRowTransformer_transform example_nonnegative example_panel_negative) =
        example_nonnegative\<lparr>transformer_attr := Some ts\<rparr> \<and>
      (\<forall>m. k < m \<and> m < 3 \<longrightarrow> ts ! m = clone (transformer example_nonnegative)))"
proof -
  let ?B = "\<lparr>shape3 = (3, 1, 2), items3 = [[[1, 2]], [[- 1, 2]], [[3 :: val, 4]]]\<rparr>"
  have e1: "SeriesToPrimitivesRowTransformer_transform example_primitives example_panel =
     (Inr \<lparr>shape2 = (2, 2), items2 = [[1, 3], [5, 7]]\<rparr>,
      snd (SeriesToPrimitivesRowTransformer_transform example_primitives example_panel))"
    using example_primitives_result by (simp add: prod_eq_iff)
  have e2: "SeriesToSeriesRowTransformer_transform example_series example_panel =
     (Inr \<lparr>shape2 = (2, 2),
           items2 = [[Series [1, 2], Series [3, 4]], [Series [5, 6], Series [7, 8]]]\<rparr>,
      snd (SeriesToSeriesRowTransformer_transform example_series example_panel))"
    using example_series_result by (simp add: prod_eq_iff)
  have h1: "is_fitted example_nonnegative" by code_simp
  have h2: "RowTransformer_check_transformer example_nonnegative = Inr ()" by code_simp
  have h3: "check_X example_panel_negative Coerce_to_numpy = Inr (Numpy3D ?B)" by code_simp
  have e3: "SeriesToPrimitivesRowTransformer_transform example_nonnegative example_panel_negative =
     (Inl (ValueError ''negative observation''),
      snd (SeriesToPrimitivesRowTransformer_transform example_nonnegative example_panel_negative))"
    using example_nonnegative_result by (simp add: prod_eq_iff)
  note T = row_transformers_keep_instance_order
  from T[THEN conjunct1, rule_format, OF e1]
  have p1: "\<exists>A. check_X example_panel Coerce_to_numpy = Inr (Numpy3D A) \<and>
      (\<forall>i<fst (shape3 A). \<exists>v.
          fst (fit_transform (clone (transformer example_primitives)) (instance_T A i)) = Inr v \<and>
          broadcast_to_row (fst (snd (shape3 A))) v = Inr ([[1, 3], [5, 7]] ! i))"
    by auto
  from T[THEN conjunct2, THEN conjunct1, rule_format, OF e2]
  have p2: "\<exists>A. check_X example_panel Coerce_to_numpy = Inr (Numpy3D A) \<and>
      (\<forall>i<fst (shape3 A). \<exists>xt xt2.
          fst (fit_transform (clone (transformer example_series)) (instance_T A i)) = Inr xt \<and>
          ndarray_2d xt = Inr xt2 \<and>
          [[Series [1, 2], Series [3, 4]], [Series [5, 6], Series [7, 8]]] ! i =
            map Series (items2 (transpose2 xt2)) @
              replicate (2 - length (items2 (transpose2 xt2))) NaN)"
    by auto
  from T[THEN conjunct2, THEN conjunct2, THEN conjunct1, rule_format,
      OF conjI[OF h1 conjI[OF h2 conjI[OF h3 e3]]]]
  obtain k ts where "k < fst (shape3 ?B)"
    "snd (SeriesToPrimitivesRowTransformer_transform example_nonnegative example_panel_negative) =
        example_nonnegative\<lparr>transformer_attr := Some ts\<rparr>"
    "\<forall>m. k < m \<and> m < fst (shape3 ?B) \<longrightarrow> ts ! m = clone (transformer example_nonnegative)"
    by blast
  then have p3: "\<exists>k<3. \<exists>ts.
      snd (SeriesToPrimitivesRowTransformer_transform example_nonnegative example_panel_negative) =
        example_nonnegative\<lparr>transformer_attr := Some ts\<rparr> \<and>
      (\<forall>m. k < m \<and> m < 3 \<longrightarrow> ts ! m = clone (transformer example_nonnegative))"
    by (intro exI[of _ k] conjI exI[of _ ts]) simp_all
  from p1 p2 p3 h1 h2 h3 example_primitives_result example_series_result example_nonnegative_result
  show ?thesis by blast
qed

text \<open>
  C10. Where \<open>_prepare\<close> accepts the input, the series-to-primitives transform returns a
  table exactly when every instance's output can be assigned to a row of length \<open>D\<close>,
  the number of variables of the input; the table then has \<open>N\<close> rows and \<open>D\<close> columns,
  whatever the size of the outputs; and an output that cannot fill such a row makes the
  call fail.
\<close>

theorem primitives_table_has_one_column_per_variable:
  assumes "is_fitted self" "RowTransformer_check_transformer self = Inr ()"
    "check_X X Coerce_to_numpy = Inr (Numpy3D A)"
  shows "((\<exists>df self'. SeriesToPrimitivesRowTransformer_transform self X = (Inr df, self')) \<longleftrightarrow>
      (\<forall>i<fst (shape3 A). \<exists>v row.
          fst (fit_transform (clone (transformer self)) (instance_T A i)) = Inr v \<and>
          broadcast_to_row (fst (snd (shape3 A))) v = Inr row)) \<and>
     (\<forall>df self'. SeriesToPrimitivesRowTransformer_transform self X = (Inr df, self') \<longrightarrow>
        shape2 df = (fst (shape3 A), fst (snd (shape3 A))) \<and>
        length (items2 df) = fst (shape3 A) \<and>
        (\<forall>row\<in>set (items2 df). length row = fst (snd (shape3 A)))) \<and>
     (\<forall>i v e. i < fst (shape3 A) \<longrightarrow>
        fst (fit_transform (clone (transformer self)) (instance_T A i)) = Inr v \<longrightarrow>
        broadcast_to_row (fst (snd (shape3 A))) v = Inl e \<longrightarrow>
        (\<exists>e'. fst (SeriesToPrimitivesRowTransformer_transform self X) = Inl e'))"
proof -
  let ?T = "SeriesToPrimitivesRowTransformer_transform self X"
  let ?ok = "\<forall>i<fst (shape3 A). \<exists>v row.
          fst (fit_transform (clone (transformer self)) (instance_T A i)) = Inr v \<and>
          broadcast_to_row (fst (snd (shape3 A))) v = Inr row"
  have fwd: ?ok if "?T = (Inr df, self')" for df self'
  proof -
    from primitives_transform_Inr[OF that] assms(3) obtain ts where
      "\<forall>i<fst (shape3 A). \<exists>v.
        fit_transform (clone (transformer self)) (instance_T A i) = (Inr v, ts ! i) \<and>
        broadcast_to_row (fst (snd (shape3 A))) v = Inr (items2 df ! i)"
      unfolding instance_T_def by auto
    then show ?thesis by fastforce
  qed
  have bwd: "\<exists>df self'. ?T = (Inr df, self')" if ?ok
    using primitives_transform_succeeds[OF assms that] .
  have iff: "(\<exists>df self'. ?T = (Inr df, self')) \<longleftrightarrow> ?ok"
    using fwd bwd by blast
  have fails: "\<exists>e'. fst ?T = Inl e'"
    if "i < fst (shape3 A)"
      "fst (fit_transform (clone (transformer self)) (instance_T A i)) = Inr v"
      "broadcast_to_row (fst (snd (shape3 A))) v = Inl e" for i v e
  proof (cases "fst ?T")
    case (Inl e')
    then show ?thesis by blast
  next
    case (Inr df)
    then have "?T = (Inr df, snd ?T)" by (simp add: prod_eq_iff)
    from fwd[OF this] that show ?thesis by fastforce
  qed
  show ?thesis
    using iff fails primitives_rows_length[OF _ assms(3)] by blast
qed

theorem primitives_table_witness:
  "is_fitted example_primitives \<and> RowTransformer_check_transformer example_primitives = Inr () \<and>
   check_X example_panel Coerce_to_numpy =
     Inr (Numpy3D \<lparr>shape3 = (2, 2, 2), items3 = [[[1, 2], [3, 4]], [[5, 6], [7, 8]]]\<rparr>) \<and>
   fst (SeriesToPrimitivesRowTransformer_transform example_primitives example_panel) =
     Inr \<lparr>shape2 = (2, 2), items2 = [[1, 3], [5, 7]]\<rparr> \<and>
   shape2 \<lparr>shape2 = (2, 2), items2 = [[1, 3], [5, 7 :: val]]\<rparr> =
     (fst (shape3 \<lparr>shape3 = (2, 2, 2), items3 = [[[1, 2], [3, 4]], [[5, 6], [7, 8]]]\<rparr>),
      fst (snd (shape3 \<lparr>shape3 = (2, 2, 2), items3 = [[[1, 2], [3, 4]], [[5, 6], [7, 8]]]\<rparr>))) \<and>
   is_fitted (example_primitives\<lparr>transformer := identity_series, check_transformer := False\<rparr>) \<and>
   RowTransformer_check_transformer
     (example_primitives\<lparr>transformer := identity_series, check_transformer := False\<rparr>) = Inr () \<and>
   fst (fit_transform (clone identity_series)
     (instance_T \<lparr>shape3 = (2, 2, 2), items3 = [[[1, 2], [3, 4]], [[5, 6], [7, 8]]]\<rparr> 0)) =
     Inr \<lparr>nd_shape = [2, 2], nd_data = [1, 3, 2, 4]\<rparr> \<and>
   broadcast_to_row 2 \<lparr>nd_shape = [2, 2], nd_data = [1, 3, 2, 4]\<rparr> =
     Inl (ValueError ''could not broadcast input array'') \<and>
   (\<exists>e'. fst (SeriesToPrimitivesRowTransformer_transform
       (example_primitives\<lparr>transformer := identity_series, check_transformer := False\<rparr>)
       example_panel) = Inl e')"
proof -
  let ?A = "\<lparr>shape3 = (2, 2, 2), items3 = [[[1, 2], [3, 4]], [[5, 6], [7 :: val, 8]]]\<rparr>"
  let ?bad = "example_primitives\<lparr>transformer := identity_series, check_transformer := False\<rparr>"
  let ?v = "\<lparr>nd_shape = [2, 2], nd_data = [1, 3, 2, 4 :: val]\<rparr>"
  have h1: "is_fitted example_primitives" by code_simp
  have h2: "RowTransformer_check_transformer example_primitives = Inr ()" by code_simp
  have h3: "check_X example_panel Coerce_to_numpy = Inr (Numpy3D ?A)"
    by code_simp
  have e: "SeriesToPrimitivesRowTransformer_transform example_primitives example_panel =
     (Inr \<lparr>shape2 = (2, 2), items2 = [[1, 3], [5, 7]]\<rparr>,
      snd (SeriesToPrimitivesRowTransformer_transform example_primitives example_panel))"
    using example_primitives_result by (simp add: prod_eq_iff)
  have b1: "is_fitted ?bad" by code_simp
  have b2: "RowTransformer_check_transformer ?bad = Inr ()" by code_simp
  have b3: "fst (fit_transform (clone (transformer ?bad)) (instance_T ?A 0)) = Inr ?v"
    by code_simp
  have b4: "broadcast_to_row (fst (snd (shape3 ?A))) ?v =
     Inl (ValueError ''could not broadcast input array'')"
    by code_simp
  have b0: "0 < fst (shape3 ?A)" by simp
  note T = primitives_table_has_one_column_per_variable
  note good = T[OF h1 h2 h3, THEN conjunct2, THEN conjunct1, rule_format, OF e]
  note bad = T[OF b1 b2 h3, THEN conjunct2, THEN conjunct2, rule_format, OF b0 b3 b4]
  from good bad h1 h2 h3 b1 b2 b3 b4 example_primitives_result
  show ?thesis by simp
qed

text \<open>
  C9, as the code has it. The clones are created inside \<open>transform\<close>, by \<open>_prepare\<close>, one
  per instance, and assigned to the attribute \<open>transformer_\<close> of the row transformer,
  replacing what an earlier call left there. They stay there after the call returns:
  after a successful call the attribute holds the \<open>N\<close> clones, clone \<open>i\<close> in the state
  that fitting it on instance \<open>i\<close> left, and nothing else of the object has changed.
\<close>

theorem clones_are_stored_in_the_object:
  "(RowTransformer_prepare self X = (Inr A, self1) \<longrightarrow>
      self1 = self\<lparr>transformer_attr :=
                Some (map (\<lambda>_. clone (transformer self)) [0..<fst (shape3 A)])\<rparr>) \<and>
   (SeriesToPrimitivesRowTransformer_transform self X = (Inr df, self') \<longrightarrow>
      (\<exists>A ts. check_X X Coerce_to_numpy = Inr (Numpy3D A) \<and>
         self' = self\<lparr>transformer_attr := Some ts\<rparr> \<and> length ts = fst (shape3 A) \<and>
         (\<forall>i<fst (shape3 A).
            ts ! i = snd (fit_transform (clone (transformer self)) (instance_T A i))))) \<and>
   (SeriesToSeriesRowTransformer_transform self X = (Inr nf, self'') \<longrightarrow>
      (\<exists>A ts. check_X X Coerce_to_numpy = Inr (Numpy3D A) \<and>
         self'' = self\<lparr>transformer_attr := Some ts\<rparr> \<and> length ts = fst (shape3 A) \<and>
         (\<forall>i<fst (shape3 A).
            ts ! i = snd (fit_transform (clone (transformer self)) (instance_T A i)))))"
proof (intro conjI impI)
  assume "RowTransformer_prepare self X = (Inr A, self1)"
  then show "self1 = self\<lparr>transformer_attr :=
                Some (map (\<lambda>_. clone (transformer self)) [0..<fst (shape3 A)])\<rparr>"
    by (simp add: prepare_Inr)
next
  assume "SeriesToPrimitivesRowTransformer_transform self X = (Inr df, self')"
  from primitives_transform_Inr[OF this] obtain A ts where
    "check_X X Coerce_to_numpy = Inr (Numpy3D A)" "self' = self\<lparr>transformer_attr := Some ts\<rparr>"
    "length ts = fst (shape3 A)"
    "\<forall>i<fst (shape3 A). \<exists>v.
        fit_transform (clone (transformer self)) (instance_T A i) = (Inr v, ts ! i)"
    unfolding instance_T_def by blast
  then show "\<exists>A ts. check_X X Coerce_to_numpy = Inr (Numpy3D A) \<and>
         self' = self\<lparr>transformer_attr := Some ts\<rparr> \<and> length ts = fst (shape3 A) \<and>
         (\<forall>i<fst (shape3 A).
            ts ! i = snd (fit_transform (clone (transformer self)) (instance_T A i)))"
    by (intro exI[of _ A] exI[of _ ts]) fastforce
next
  assume "SeriesToSeriesRowTransformer_transform self X = (Inr nf, self'')"
  from series_transform_Inr[OF this] obtain A ts where
    "check_X X Coerce_to_numpy = Inr (Numpy3D A)" "self'' = self\<lparr>transformer_attr := Some ts\<rparr>"
    "length ts = fst (shape3 A)"
    "\<forall>i<fst (shape3 A). \<exists>xt.
        fit_transform (clone (transformer self)) (instance_T A i) = (Inr xt, ts ! i)"
    unfolding instance_T_def by blast
  then show "\<exists>A ts. check_X X Coerce_to_numpy = Inr (Numpy3D A) \<and>
         self'' = self\<lparr>transformer_attr := Some ts\<rparr> \<and> length ts = fst (shape3 A) \<and>
         (\<forall>i<fst (shape3 A).
            ts ! i = snd (fit_transform (clone (transformer self)) (instance_T A i)))"
    by (intro exI[of _ A] exI[of _ ts]) fastforce
qed

theorem clones_are_stored_witness:
  "fst (RowTransformer_prepare example_primitives example_panel) =
     Inr \<lparr>shape3 = (2, 2, 2), items3 = [[[1, 2], [3, 4]], [[5, 6], [7, 8]]]\<rparr> \<and>
   snd (RowTransformer_prepare example_primitives example_panel) =
     example_primitives\<lparr>transformer_attr :=
       Some (map (\<lambda>_. clone (transformer example_primitives)) [0..<2])\<rparr> \<and>
   fst (SeriesToPrimitivesRowTransformer_transform example_primitives example_panel) =
     Inr \<lparr>shape2 = (2, 2), items2 = [[1, 3], [5, 7]]\<rparr> \<and>
   (\<exists>A ts. check_X example_panel Coerce_to_numpy = Inr (Numpy3D A) \<and>
      snd (SeriesToPrimitivesRowTransformer_transform example_primitives example_panel) =
        example_primitives\<lparr>transformer_attr := Some ts\<rparr> \<and>
      length ts = fst (shape3 A) \<and>
      (\<forall>i<fst (shape3 A).
          ts ! i = snd (fit_transform (clone (transformer example_primitives)) (instance_T A i)))) \<and>
   fst (SeriesToSeriesRowTransformer_transform example_series example_panel) =
     Inr \<lparr>shape2 = (2, 2),
          items2 = [[Series [1, 2], Series [3, 4]], [Series [5, 6], Series [7, 8]]]\<rparr> \<and>
   (\<exists>A ts. check_X example_panel Coerce_to_numpy = Inr (Numpy3D A) \<and>
      snd (SeriesToSeriesRowTransformer_transform example_series example_panel) =
        example_series\<lparr>transformer_attr := Some ts\<rparr> \<and>
      length ts = fst (shape3 A) \<and>
      (\<forall>i<fst (shape3 A).
          ts ! i = snd (fit_transform (clone (transformer example_series)) (instance_T A i))))"
proof -
  let ?A = "\<lparr>shape3 = (2, 2, 2), items3 = [[[1, 2], [3, 4]], [[5, 6], [7 :: val, 8]]]\<rparr>"
  have p: "fst (RowTransformer_prepare example_primitives example_panel) = Inr ?A"
    by code_simp
  then have e0: "RowTransformer_prepare example_primitives example_panel =
     (Inr ?A, snd (RowTransformer_prepare example_primitives example_panel))"
    by (simp add: prod_eq_iff)
  have e1: "SeriesToPrimitivesRowTransformer_transform example_primitives example_panel =
     (Inr \<lparr>shape2 = (2, 2), items2 = [[1, 3], [5, 7]]\<rparr>,
      snd (SeriesToPrimitivesRowTransformer_transform example_primitives example_panel))"
    using example_primitives_result by (simp add: prod_eq_iff)
  have e2: "SeriesToSeriesRowTransformer_transform example_series example_panel =
     (Inr \<lparr>shape2 = (2, 2),
           items2 = [[Series [1, 2], Series [3, 4]], [Series [5, 6], Series [7, 8]]]\<rparr>,
      snd (SeriesToSeriesRowTransformer_transform example_series example_panel))"
    using example_series_result by (simp add: prod_eq_iff)
  note T = clones_are_stored_in_the_object
  from T[THEN conjunct1, rule_format, OF e0]
  have p0: "snd (RowTransformer_prepare example_primitives example_panel) =
     example_primitives\<lparr>transformer_attr :=
       Some (map (\<lambda>_. clone (transformer example_primitives)) [0..<2])\<rparr>"
    by simp
  note p1 = T[THEN conjunct2, THEN conjunct1, rule_format, OF e1]
  note p2 = T[THEN conjunct2, THEN conjunct2, rule_format, OF e2]
  from p p0 p1 p2 example_primitives_result example_series_result
  show ?thesis by (intro conjI) assumption+
qed

text \<open>
  The claim as the spec has it fails: after the call on the example panel has returned,
  the attribute of the row transformer holds two clones, fitted on the first
  observations of the two instances.
\<close>

theorem clones_persist_after_transform_example:
  "map_option (map state)
     (transformer_attr (snd (SeriesToPrimitivesRowTransformer_transform example_primitives example_panel)))
   = Some [Some [1, 3], Some [5, 7]]"
  by code_simp

text \<open>
  C6, as the code has it. Construction stores the template and the flag and never
  raises. The type of the template is checked by \<open>_prepare\<close>, when \<open>transform\<close> is
  called on a fitted row transformer: with the check enabled and a template that is not
  an instance of the required class, the call fails with a type error that names the
  class and leaves the object as it was; with the check disabled the template always
  passes.
\<close>

theorem type_check_happens_in_transform:
  "(\<exists>obj. RowTransformer_init cls t chk = Inr obj \<and> transformer obj = t \<and>
      check_transformer obj = chk \<and> valid_transformer_type obj = cls) \<and>
   (is_fitted self \<and> check_transformer self \<and>
    \<not> isinstance (transformer self) (valid_transformer_type self) \<longrightarrow>
      RowTransformer_prepare self X =
        (Inl (TypeError (''transformer must be a '' @ class_name (valid_transformer_type self))), self) \<and>
      SeriesToPrimitivesRowTransformer_transform self X =
        (Inl (TypeError (''transformer must be a '' @ class_name (valid_transformer_type self))), self) \<and>
      SeriesToSeriesRowTransformer_transform self X =
        (Inl (TypeError (''transformer must be a '' @ class_name (valid_transformer_type self))), self)) \<and>
   (\<not> check_transformer self \<longrightarrow> RowTransformer_check_transformer self = Inr ())"
  by (simp add: RowTransformer_init_def RowTransformer_prepare_def check_is_fitted_def
      RowTransformer_check_transformer_def SeriesToPrimitivesRowTransformer_transform_def
      SeriesToSeriesRowTransformer_transform_def)

theorem type_check_happens_in_transform_witness:
  "is_fitted (example_primitives\<lparr>transformer := identity_series\<rparr>) \<and>
   check_transformer (example_primitives\<lparr>transformer := identity_series\<rparr>) \<and>
   \<not> isinstance identity_series SeriesToPrimitivesTransformer \<and>
   SeriesToPrimitivesRowTransformer_transform
     (example_primitives\<lparr>transformer := identity_series\<rparr>) example_panel =
     (Inl (TypeError ''transformer must be a _SeriesToPrimitivesTransformer''),
      example_primitives\<lparr>transformer := identity_series\<rparr>) \<and>
   \<not> check_transformer
     (example_primitives\<lparr>transformer := identity_series, check_transformer := False\<rparr>) \<and>
   RowTransformer_check_transformer
     (example_primitives\<lparr>transformer := identity_series, check_transformer := False\<rparr>) = Inr ()"
  using type_check_happens_in_transform
    [of SeriesToPrimitivesTransformer identity_series True
        "example_primitives\<lparr>transformer := identity_series\<rparr>" example_panel]
    type_check_happens_in_transform
    [of SeriesToPrimitivesTransformer identity_series True
        "example_primitives\<lparr>transformer := identity_series, check_transformer := False\<rparr>"
        example_panel]
  by (simp add: example_primitives_def identity_series_def)

text \<open>
  The claim as the spec has it fails: with the check enabled and a series-to-series
  template, constructing the series-to-primitives row transformer returns the object.
\<close>

theorem construction_never_raises_example:
  "\<not> isinstance identity_series SeriesToPrimitivesTransformer \<and>
   SeriesToPrimitivesRowTransformer identity_series True =
     Inr \<lparr>is_fitted = False, valid_transformer_type = SeriesToPrimitivesTransformer,
          transformer = identity_series, check_transformer = True, transformer_attr = None\<rparr>"
  by (simp add: SeriesToPrimitivesRowTransformer_def RowTransformer_init_def identity_series_def)

subsection \<open>The factory\<close>

text \<open>
  C7, as the code has it. Without an override, \<open>make_row_transformer\<close> returns the
  series-to-series row transformer for a series-to-series template, and the
  series-to-primitives row transformer for a series-to-primitives template that is not
  also a series-to-series one (the series-to-series class is tested first). A valid
  override selects the variant by itself, whatever the template. An override that is
  neither of the two strings raises the value error; a template of neither class,
  without an override, raises the type error.
\<close>

theorem make_row_transformer_selects_variant:
  "(isinstance t SeriesToSeriesTransformer \<longrightarrow>
      make_row_transformer t None chk = SeriesToSeriesRowTransformer t chk) \<and>
   (isinstance t SeriesToPrimitivesTransformer \<and> \<not> isinstance t SeriesToSeriesTransformer \<longrightarrow>
      make_row_transformer t None chk = SeriesToPrimitivesRowTransformer t chk) \<and>
   (ty \<notin> {''series-to-series'', ''series-to-primitives''} \<longrightarrow>
      make_row_transformer t (Some ty) chk = Inl (ValueError invalid_transformer_type_message)) \<and>
   (\<not> isinstance t SeriesToSeriesTransformer \<and> \<not> isinstance t SeriesToPrimitivesTransformer \<longrightarrow>
      make_row_transformer t None chk = Inl (TypeError type_not_understood_message)) \<and>
   make_row_transformer t (Some ''series-to-series'') chk = SeriesToSeriesRowTransformer t chk \<and>
   make_row_transformer t (Some ''series-to-primitives'') chk = SeriesToPrimitivesRowTransformer t chk \<and>
   (\<exists>obj. SeriesToSeriesRowTransformer t chk = Inr obj \<and>
      valid_transformer_type obj = SeriesToSeriesTransformer \<and> transformer obj = t) \<and>
   (\<exists>obj. SeriesToPrimitivesRowTransformer t chk = Inr obj \<and>
      valid_transformer_type obj = SeriesToPrimitivesTransformer \<and> transformer obj = t)"
  by (simp add: make_row_transformer_def valid_transformer_types_def
      SeriesToSeriesRowTransformer_def SeriesToPrimitivesRowTransformer_def RowTransformer_init_def)

theorem make_row_transformer_witness:
  "isinstance identity_series SeriesToSeriesTransformer \<and>
   make_row_transformer identity_series None True = SeriesToSeriesRowTransformer identity_series True \<and>
   isinstance first_observation SeriesToPrimitivesTransformer \<and>
   \<not> isinstance first_observation SeriesToSeriesTransformer \<and>
   make_row_transformer first_observation None True =
     SeriesToPrimitivesRowTransformer first_observation True \<and>
   ''series'' \<notin> {''series-to-series'', ''series-to-primitives''} \<and>
   make_row_transformer first_observation (Some ''series'') True =
     Inl (ValueError invalid_transformer_type_message) \<and>
   \<not> isinstance (first_observation\<lparr>is_SeriesToPrimitivesTransformer := False\<rparr>)
       SeriesToSeriesTransformer \<and>
   \<not> isinstance (first_observation\<lparr>is_SeriesToPrimitivesTransformer := False\<rparr>)
       SeriesToPrimitivesTransformer \<and>
   make_row_transformer (first_observation\<lparr>is_SeriesToPrimitivesTransformer := False\<rparr>) None True =
     Inl (TypeError type_not_understood_message)"
  using make_row_transformer_selects_variant[of identity_series True "''series''"]
    make_row_transformer_selects_variant[of first_observation True "''series''"]
    make_row_transformer_selects_variant
      [of "first_observation\<lparr>is_SeriesToPrimitivesTransformer := False\<rparr>" True "''series''"]
  by (simp add: identity_series_def first_observation_def)

text \<open>
  The claim as the spec has it fails: a template of both classes is a
  series-to-primitives template, and without an override it gets the series-to-series
  row transformer.
\<close>

theorem make_row_transformer_both_classes_example:
  "isinstance (first_observation\<lparr>is_SeriesToSeriesTransformer := True\<rparr>)
     SeriesToPrimitivesTransformer \<and>
   make_row_transformer (first_observation\<lparr>is_SeriesToSeriesTransformer := True\<rparr>) None True =
     SeriesToSeriesRowTransformer (first_observation\<lparr>is_SeriesToSeriesTransformer := True\<rparr>) True \<and>
   make_row_transformer (first_observation\<lparr>is_SeriesToSeriesTransformer := True\<rparr>) None True \<noteq>
     SeriesToPrimitivesRowTransformer (first_observation\<lparr>is_SeriesToSeriesTransformer := True\<rparr>) True"
  by (simp add: make_row_transformer_def first_observation_def SeriesToSeriesRowTransformer_def
      SeriesToPrimitivesRowTransformer_def RowTransformer_init_def)

end
